theory Spec2Isabelle
  imports Main
begin

section \<open>JavaScript strings and values\<close>

text \<open>
  Strings are lists of 8-bit characters: the texts of the command line, of the replies and
  of the console are taken to hold characters up to U+00FF only. An absent value
  (\<^verbatim>\<open>undefined\<close>) is \<open>None\<close>.
\<close>

definition CRLF :: string where
  "CRLF = [CHR 0x0D, CHR 0x0A]"

definition truthy :: "string option \<Rightarrow> bool" where
  \<comment> \<open>\<^verbatim>\<open>if (x)\<close> on a string or undefined: a non-empty string.\<close>
  "truthy x = (case x of None \<Rightarrow> False | Some s \<Rightarrow> s \<noteq> [])"

definition interp :: "string option \<Rightarrow> string" where
  \<comment> \<open>a value inside a template literal: undefined prints as the word itself\<close>
  "interp x = (case x of None \<Rightarrow> ''undefined'' | Some s \<Rightarrow> s)"

definition substring :: "string \<Rightarrow> nat \<Rightarrow> nat \<Rightarrow> string" where
  \<comment> \<open>\<^verbatim>\<open>s.substring(a, b)\<close>: the arguments are swapped when a > b, and clamped\<close>
  "substring s a b = (let lo = min a b; hi = max a b in take (hi - lo) (drop lo s))"

fun split_on :: "char \<Rightarrow> string \<Rightarrow> string list" where
  "split_on sep [] = [[]]"
| "split_on sep (x # xs) =
     (if x = sep then [] # split_on sep xs
      else (case split_on sep xs of
              p # ps \<Rightarrow> (x # p) # ps
            | [] \<Rightarrow> [[x]]))"

definition split :: "string \<Rightarrow> char \<Rightarrow> nat \<Rightarrow> string list" where
  \<comment> \<open>\<^verbatim>\<open>s.split(sep, limit)\<close> with a one-character separator\<close>
  "split s sep limit = take limit (split_on sep s)"

definition index :: "'a list \<Rightarrow> nat \<Rightarrow> 'a option" where
  \<comment> \<open>\<^verbatim>\<open>xs[i]\<close>: undefined out of range\<close>
  "index xs i = (if i < length xs then Some (xs ! i) else None)"

definition is_js_space :: "char \<Rightarrow> bool" where
  "is_js_space ch =
     (ch = CHR 0x09 \<or> ch = CHR 0x0A \<or> ch = CHR 0x0B \<or> ch = CHR 0x0C \<or> ch = CHR 0x0D
      \<or> ch = CHR 0x20 \<or> ch = CHR 0xA0)"

definition trim :: "string \<Rightarrow> string" where
  "trim s = rev (dropWhile is_js_space (rev (dropWhile is_js_space s)))"

subsection \<open>btoa\<close>

definition b64_alphabet :: string where
  "b64_alphabet = ''ABCDEFGHIJKLMNOPQRSTUVWXYZabcdefghijklmnopqrstuvwxyz0123456789+/''"

definition b64_digit :: "nat \<Rightarrow> char" where
  "b64_digit n = b64_alphabet ! (n mod 64)"

fun b64_groups :: "nat list \<Rightarrow> string" where
  "b64_groups (a # b # c # rest) =
     [b64_digit (a div 4), b64_digit ((a mod 4) * 16 + b div 16),
      b64_digit ((b mod 16) * 4 + c div 64), b64_digit (c mod 64)] @ b64_groups rest"
| "b64_groups [a, b] =
     [b64_digit (a div 4), b64_digit ((a mod 4) * 16 + b div 16),
      b64_digit ((b mod 16) * 4), CHR ''='']"
| "b64_groups [a] = [b64_digit (a div 4), b64_digit ((a mod 4) * 16), CHR ''='', CHR ''='']"
| "b64_groups [] = []"

definition btoa :: "string \<Rightarrow> string" where
  "btoa s = b64_groups (map of_char s)"

subsection \<open>Exceptions\<close>

datatype exn =
    Thrown string  \<comment> \<open>\<^verbatim>\<open>throw "text"\<close>\<close>
  | ErrObj string string  \<comment> \<open>an Error object: its name and its message\<close>

definition exn_to_string :: "exn \<Rightarrow> string" where
  \<comment> \<open>\<^verbatim>\<open>`${ex}`\<close>\<close>
  "exn_to_string ex =
     (case ex of
        Thrown s \<Rightarrow> s
      | ErrObj n m \<Rightarrow> (if n = [] then m else if m = [] then n else n @ '': '' @ m))"

definition exn_message :: "exn \<Rightarrow> string" where
  \<comment> \<open>\<^verbatim>\<open>`${ex.message}`\<close>\<close>
  "exn_message ex = (case ex of Thrown s \<Rightarrow> interp None | ErrObj n m \<Rightarrow> m)"

definition type_error :: exn where
  \<comment> \<open>\<^verbatim>\<open>undefined.toString()\<close>\<close>
  "type_error = ErrObj ''TypeError''
     (''Cannot read properties of undefined (reading '' @ [CHR 0x27] @ ''toString''
        @ [CHR 0x27] @ '')'')"

definition timeout_error :: exn where
  \<comment> \<open>the rejection of a read after the inactivity timeout; it prints as "Error: Timeout"\<close>
  "timeout_error = ErrObj ''Error'' ''Timeout''"

definition invalid_character :: exn where
  \<comment> \<open>what \<^verbatim>\<open>btoa\<close> throws on a code unit above U+00FF\<close>
  "invalid_character = ErrObj ''InvalidCharacterError'' ''Invalid character''"

text \<open>
  \<^verbatim>\<open>btoa\<close> takes a JavaScript string, a list of 16-bit code units, and throws on a
  code unit above U+00FF; \<open>btoa_units\<close> is that function on the code units. On the
  8-bit strings above it never throws, and \<open>btoa\<close> is its result there: a user or a password
  with a character above U+00FF, on which the call throws inside the authentication try
  block, is outside these strings.
\<close>

definition btoa_units :: "nat list \<Rightarrow> exn + string" where
  "btoa_units units =
     (if list_all (\<lambda>u. u \<le> 255) units then Inr (b64_groups units)
      else Inl invalid_character)"

section \<open>The socket and the console\<close>

datatype read_result =
    Chunk string  \<comment> \<open>one buffer of server bytes, decoded\<close>
  | EndOfStream  \<comment> \<open>the read resolves with undefined: the server closed the stream\<close>
  | ReadFail exn  \<comment> \<open>the read rejects\<close>

datatype sock_state = Unconnected | Connected | Destroyed | Ended

datatype console_event = Log string | Warn string | Debug string | Err string

text \<open>
  The promisified socket with everything the run observes: the scripted server
  (\<open>connect_result\<close>, the results of the reads still to come, how many writes still succeed,
  \<open>None\<close> for all of them, and the error the socket reports for the write that fails), what
  the runtime prints of a rejection (the text of its \<^verbatim>\<open>stack\<close> and of the rejected
  promise), what was written, what was printed, and which of connect, destroy and end was
  called last.
\<close>

record client =
  connect_result :: "exn option"
  inbox :: "read_result list"
  writable :: "nat option"
  write_failure :: exn
  stack_text :: "exn \<Rightarrow> string"
  promise_text :: "exn \<Rightarrow> string"
  sent :: "string list"
  console :: "console_event list"
  sock :: sock_state

datatype 'a res = Ok 'a client | Throw exn client

fun res_bind :: "'a res \<Rightarrow> ('a \<Rightarrow> client \<Rightarrow> 'b res) \<Rightarrow> 'b res" where
  "res_bind (Ok a c) f = f a c"
| "res_bind (Throw ex c) f = Throw ex c"

definition console_log :: "string \<Rightarrow> client \<Rightarrow> client" where
  "console_log m c = c\<lparr>console := console c @ [Log m]\<rparr>"

definition console_warn :: "string \<Rightarrow> client \<Rightarrow> client" where
  "console_warn m c = c\<lparr>console := console c @ [Warn m]\<rparr>"

definition console_debug :: "string \<Rightarrow> client \<Rightarrow> client" where
  "console_debug m c = c\<lparr>console := console c @ [Debug m]\<rparr>"

definition console_error :: "string \<Rightarrow> client \<Rightarrow> client" where
  "console_error m c = c\<lparr>console := console c @ [Err m]\<rparr>"

definition client_connect :: "client \<Rightarrow> unit res" where
  "client_connect c =
     (case connect_result c of
        Some ex \<Rightarrow> Throw ex c
      | None \<Rightarrow> Ok () (c\<lparr>sock := Connected\<rparr>))"

definition client_write :: "string \<Rightarrow> client \<Rightarrow> unit res" where
  "client_write d c =
     (case writable c of
        None \<Rightarrow> Ok () (c\<lparr>sent := sent c @ [d]\<rparr>)
      | Some 0 \<Rightarrow> Throw (write_failure c) c
      | Some (Suc n) \<Rightarrow> Ok () (c\<lparr>writable := Some n, sent := sent c @ [d]\<rparr>))"

definition client_read :: "client \<Rightarrow> string option res" where
  \<comment> \<open>a read with nothing left in the script runs into the inactivity timeout\<close>
  "client_read c =
     (case inbox c of
        [] \<Rightarrow> Throw timeout_error c
      | Chunk b # rest \<Rightarrow> Ok (Some b) (c\<lparr>inbox := rest\<rparr>)
      | EndOfStream # rest \<Rightarrow> Ok None (c\<lparr>inbox := rest\<rparr>)
      | ReadFail ex # rest \<Rightarrow> Throw ex (c\<lparr>inbox := rest\<rparr>))"

definition client_destroy :: "client \<Rightarrow> client" where
  "client_destroy c = c\<lparr>sock := Destroyed\<rparr>"

definition client_end :: "client \<Rightarrow> client" where
  \<comment> \<open>the last call of a completed run; it is taken to succeed\<close>
  "client_end c = c\<lparr>sock := Ended\<rparr>"

definition toString :: "string option \<Rightarrow> client \<Rightarrow> string res" where
  "toString buf c = (case buf of None \<Rightarrow> Throw type_error c | Some b \<Rightarrow> Ok b c)"

section \<open>Command line\<close>

record argv =
  argv_help :: bool
  argv_v :: bool
  argv_u :: "string option"
  argv_s :: "string option"
  argv_r :: "string option"
  argv_h :: "string option"
  argv_p :: "string option"
  argv_o :: "string option"

datatype port = PortNumber nat | PortString string

record clientOpts =
  user :: string
  sender :: string
  domain :: "string option"
  recipient :: string
  host :: string
  password :: "string option"
  port :: port
  verbose :: bool

text \<open>
  The first try block of the scripts. \<open>None\<close> is the catch: the help text is printed and
  the process exits. shokuhou.js has no \<^verbatim>\<open>-v\<close> and never reads \<open>verbose\<close>.
\<close>

definition parse_argv :: "argv \<Rightarrow> clientOpts option" where
  "parse_argv a =
     (if argv_help a then None
      else if \<not> truthy (argv_u a) then None
      else
        let user = interp (argv_u a);
            sender = (if truthy (argv_s a) then interp (argv_s a) else interp (argv_u a));
            domain = index (split sender (CHR ''@'') 2) 1
        in
          if \<not> truthy (argv_r a) then None
          else if \<not> truthy (argv_h a) then None
          else Some \<lparr>user = user, sender = sender, domain = domain,
                 recipient = interp (argv_r a), host = interp (argv_h a),
                 password = (if truthy (argv_p a) then argv_p a else None),
                 port = (if truthy (argv_o a) then PortString (interp (argv_o a))
                         else PortNumber 25),
                 verbose = argv_v a\<rparr>)"

section \<open>The run\<close>

datatype stage = Connect | Banner | Greeting | Authentication | Initiation | Message

datatype ending =
    Completed  \<comment> \<open>QUIT written, the socket ended\<close>
  | Failed stage  \<comment> \<open>the catch block of that stage ran: \<^verbatim>\<open>process.exit(0)\<close>\<close>
  | Unhandled exn  \<comment> \<open>a rejection outside every try block\<close>

datatype step = Next client | Exit ending client

fun continue :: "step \<Rightarrow> (client \<Rightarrow> ending \<times> client) \<Rightarrow> ending \<times> client" where
  "continue (Next c) f = f c"
| "continue (Exit e c) f = (e, c)"

definition unhandledRejection :: "exn \<Rightarrow> client \<Rightarrow> client" where
  \<comment> \<open>modules/errorHandler.js, for a rejection outside every try block\<close>
  "unhandledRejection reason c =
     console_error
       (''Unhandled rejection: '' @ [CHR 0x0A] @ exn_to_string reason @ [CHR 0x0A]
        @ ''Stack:'' @ [CHR 0x0A] @ stack_text c reason @ [CHR 0x0A]
        @ ''Promise:'' @ [CHR 0x0A] @ promise_text c reason) c"

definition fatal :: "stage \<Rightarrow> string \<Rightarrow> client \<Rightarrow> step" where
  \<comment> \<open>the catch blocks after the connect: print, destroy the socket, exit\<close>
  "fatal st m c = Exit (Failed st) (client_destroy (console_error m c))"

subsection \<open>shokuhou.js\<close>

definition sk_connect :: "clientOpts \<Rightarrow> client \<Rightarrow> step" where
  "sk_connect opts c0 =
     (case client_connect c0 of
        Ok _ c1 \<Rightarrow> Next (console_log (''[*] Connected to '' @ host opts) c1)
      | Throw ex c1 \<Rightarrow>
          Exit (Failed Connect)
            (console_error (''An error occurred connecting to the server: '' @ exn_to_string ex) c1))"

definition sk_banner_try :: "client \<Rightarrow> unit res" where
  "sk_banner_try c0 =
     res_bind (client_read c0) (\<lambda>banner c1.
     res_bind (toString banner c1) (\<lambda>b c2.
       if substring b 0 3 \<noteq> ''220'' then Throw (Thrown (''Improper response: '' @ b)) c2
       else Ok () (console_log ''[*] Received banner from the server'' c2)))"

definition sk_banner :: "client \<Rightarrow> step" where
  "sk_banner c0 =
     (case sk_banner_try c0 of
        Ok _ c \<Rightarrow> Next c
      | Throw ex c \<Rightarrow>
          fatal Banner (''[X] An error occurred reading the server banner: '' @ exn_to_string ex) c)"

definition sk_greeting_try :: "clientOpts \<Rightarrow> client \<Rightarrow> unit res" where
  "sk_greeting_try opts c0 =
     res_bind (client_write (''EHLO '' @ interp (domain opts) @ CRLF) c0) (\<lambda>_ c1.
     res_bind (client_read c1) (\<lambda>helloResp c2.
     res_bind (toString helloResp c2) (\<lambda>h c3.
     res_bind
       (if substring h 0 3 = ''502'' then
          res_bind
            (client_write (''HELO '' @ interp (domain opts) @ CRLF)
               (console_warn ''[!] EHLO not supported, attempting HELO greeting'' c3))
            (\<lambda>_ c4. client_read c4)
        else Ok helloResp c3) (\<lambda>helloResp c5.
     res_bind (toString helloResp c5) (\<lambda>h c6.
       if substring h 0 3 \<noteq> ''250'' then Throw (Thrown (''Improper response: '' @ h)) c6
       else Ok () (console_log ''[*] Successfully greeted the server'' c6))))))"

definition sk_greeting :: "clientOpts \<Rightarrow> client \<Rightarrow> step" where
  "sk_greeting opts c0 =
     (case sk_greeting_try opts c0 of
        Ok _ c \<Rightarrow> Next c
      | Throw ex c \<Rightarrow>
          fatal Greeting (''[X] An error occurred during the greeting: '' @ exn_to_string ex) c)"

definition sk_initiation_try :: "clientOpts \<Rightarrow> client \<Rightarrow> unit res" where
  "sk_initiation_try opts c0 =
     res_bind (client_write (''MAIL FROM: <'' @ sender opts @ ''>'' @ CRLF) c0) (\<lambda>_ c1.
     res_bind (client_read c1) (\<lambda>userResp c2.
     res_bind (toString userResp c2) (\<lambda>u c3.
       if substring u 0 3 \<noteq> ''250'' then Throw (Thrown (''Improper response: '' @ u)) c3
       else
     res_bind (client_write (''RCPT TO: <'' @ recipient opts @ ''>'' @ CRLF) c3) (\<lambda>_ c4.
     res_bind (client_read c4) (\<lambda>userResp c5.
     res_bind (toString userResp c5) (\<lambda>u c6.
       if substring u 0 3 \<noteq> ''250'' \<and> substring u 0 3 \<noteq> ''251''
       then Throw (Thrown (''Improper response: '' @ u)) c6
       else Ok () (console_log ''[*] Mail transfer initiated'' c6)))))))"

definition sk_initiation :: "clientOpts \<Rightarrow> client \<Rightarrow> step" where
  "sk_initiation opts c0 =
     (case sk_initiation_try opts c0 of
        Ok _ c \<Rightarrow> Next c
      | Throw ex c \<Rightarrow>
          fatal Initiation (''[X] An error occurred during initiation: '' @ exn_to_string ex) c)"

definition message_text :: "clientOpts \<Rightarrow> string" where
  "message_text opts =
     ''From: <'' @ sender opts @ ''>'' @ CRLF @ ''To: <'' @ recipient opts @ ''>'' @ CRLF
     @ ''Subject: SMTP Test Email'' @ CRLF @ CRLF
     @ ''If you have received this email, your SMTP server is configured correctly'' @ CRLF
     @ ''.'' @ CRLF"

definition sk_message_try :: "clientOpts \<Rightarrow> client \<Rightarrow> unit res" where
  "sk_message_try opts c0 =
     res_bind (client_write (''DATA'' @ CRLF) c0) (\<lambda>_ c1.
     res_bind (client_read c1) (\<lambda>dataResp c2.
     res_bind (toString dataResp c2) (\<lambda>d c3.
       if substring d 0 3 \<noteq> ''354'' then Throw (Thrown (''Improper response: '' @ d)) c3
       else
     res_bind (client_write (message_text opts) c3) (\<lambda>_ c4.
     res_bind (client_read c4) (\<lambda>dataResp c5.
     res_bind (toString dataResp c5) (\<lambda>d c6.
       if substring d 0 3 \<noteq> ''250'' then Throw (Thrown (''Improper response: '' @ d)) c6
       else Ok () (console_log ''[*] Message accepted by the SMTP server'' c6)))))))"

definition sk_message :: "clientOpts \<Rightarrow> client \<Rightarrow> step" where
  "sk_message opts c0 =
     (case sk_message_try opts c0 of
        Ok _ c \<Rightarrow> Next c
      | Throw ex c \<Rightarrow>
          fatal Message (''[X] An error occurred sending the message: '' @ exn_to_string ex) c)"

definition sk_quit :: "client \<Rightarrow> ending \<times> client" where
  \<comment> \<open>outside every try block: a failed write rejects the run, the handler of
      modules/errorHandler.js prints the rejection, and end is never reached\<close>
  "sk_quit c0 =
     (case client_write (''QUIT'' @ CRLF) (console_log ''[*] Closing connection'' c0) of
        Ok _ c1 \<Rightarrow> (Completed, client_end c1)
      | Throw ex c1 \<Rightarrow> (Unhandled ex, unhandledRejection ex c1))"

definition sk_from_message :: "clientOpts \<Rightarrow> client \<Rightarrow> ending \<times> client" where
  "sk_from_message opts c = continue (sk_message opts c) sk_quit"

definition sk_from_initiation :: "clientOpts \<Rightarrow> client \<Rightarrow> ending \<times> client" where
  "sk_from_initiation opts c = continue (sk_initiation opts c) (sk_from_message opts)"

definition sk_from_greeting :: "clientOpts \<Rightarrow> client \<Rightarrow> ending \<times> client" where
  "sk_from_greeting opts c = continue (sk_greeting opts c) (sk_from_initiation opts)"

definition sk_from_banner :: "clientOpts \<Rightarrow> client \<Rightarrow> ending \<times> client" where
  "sk_from_banner opts c = continue (sk_banner c) (sk_from_greeting opts)"

definition sk_session :: "clientOpts \<Rightarrow> client \<Rightarrow> ending \<times> client" where
  "sk_session opts c = continue (sk_connect opts c) (sk_from_banner opts)"

subsection \<open>The script with authentication and verbose mode\<close>

text \<open>
  The later script (src/unnamed/part_001 of the sources): the stages of shokuhou.js with
  the status read by \<^verbatim>\<open>getStatus\<close>, Error objects thrown and their message printed,
  a debug line for every line written and read in verbose mode, and the authentication
  try block between the greeting and the mail transfer. Its definitions carry the
  prefix \<open>p1\<close>, those of shokuhou.js the prefix \<open>sk\<close>.
\<close>

definition is_digit :: "char \<Rightarrow> bool" where
  "is_digit ch = (48 \<le> (of_char ch :: nat) \<and> (of_char ch :: nat) \<le> 57)"

text \<open>
  Modelled from the spec: the "no code" value of the response parser. The spec does not
  say which value it is; it is taken to be the empty string, which is what the
  \<^verbatim>\<open>substring(0,3)\<close> of shokuhou.js gives on the empty reply.
\<close>

definition no_code :: string where
  "no_code = []"

text \<open>
  Modelled from the spec: modules/getStatus.js, which the script requires, is not among the
  sources. The spec has the response parser return the 3-character leading status code of
  the raw reply, or the "no code" value when the first three characters are not a status
  code; the parser never throws, and parsing the empty reply gives the "no code" value.
  A status code is the 3-digit numeric prefix of a reply.
\<close>

definition getStatus :: "string \<Rightarrow> string" where
  "getStatus resp =
     (let code = take 3 resp
      in if length code = 3 \<and> list_all is_digit code then code else no_code)"

definition debug :: "clientOpts \<Rightarrow> string \<Rightarrow> client \<Rightarrow> client" where
  \<comment> \<open>\<^verbatim>\<open>if (clientOpts.verbose) console.debug(m)\<close>\<close>
  "debug opts m c = (if verbose opts then console_debug m c else c)"

text \<open>
  After each read the script prints the trimmed reply in verbose mode, then hands the
  buffer to \<^verbatim>\<open>getStatus\<close>. When the read gave undefined, the first
  \<^verbatim>\<open>.toString()\<close> on it throws the TypeError: in verbose mode that is the debug
  line; otherwise it is \<^verbatim>\<open>getStatus\<close> itself or, if that returns the "no code" value, the
  \<^verbatim>\<open>new Error(...)\<close> of the failed check. Nothing is printed or written in between.
\<close>

definition received :: "clientOpts \<Rightarrow> string option \<Rightarrow> client \<Rightarrow> string res" where
  "received opts resp c =
     res_bind (toString resp c) (\<lambda>t c'. Ok t (debug opts (''[>] '' @ trim t) c'))"

definition improper :: "string \<Rightarrow> exn" where
  \<comment> \<open>\<^verbatim>\<open>new Error(`Improper response: ${resp.toString().trim()}`)\<close>\<close>
  "improper t = ErrObj ''Error'' (''Improper response: '' @ trim t)"

definition p1_connect :: "clientOpts \<Rightarrow> client \<Rightarrow> step" where
  "p1_connect opts c0 =
     (case client_connect c0 of
        Ok _ c1 \<Rightarrow> Next (console_log (''[*] Connected to '' @ host opts) c1)
      | Throw ex c1 \<Rightarrow>
          Exit (Failed Connect)
            (console_error (''An error occurred connecting to the server: '' @ exn_message ex) c1))"

definition p1_banner_try :: "clientOpts \<Rightarrow> client \<Rightarrow> unit res" where
  "p1_banner_try opts c0 =
     res_bind (client_read c0) (\<lambda>banner c1.
     res_bind (received opts banner c1) (\<lambda>b c2.
       if getStatus b \<noteq> ''220'' then Throw (improper b) c2
       else Ok () (console_log ''[*] Received banner from the server'' c2)))"

definition p1_banner :: "clientOpts \<Rightarrow> client \<Rightarrow> step" where
  "p1_banner opts c0 =
     (case p1_banner_try opts c0 of
        Ok _ c \<Rightarrow> Next c
      | Throw ex c \<Rightarrow>
          fatal Banner (''[X] An error occurred reading the server banner: '' @ exn_message ex) c)"

definition p1_greeting_try :: "clientOpts \<Rightarrow> client \<Rightarrow> unit res" where
  "p1_greeting_try opts c0 =
     res_bind
       (client_write (''EHLO '' @ interp (domain opts) @ CRLF)
          (debug opts (''[<] EHLO '' @ interp (domain opts))
             (console_log ''[*] Attempting to greet the server'' c0))) (\<lambda>_ c1.
     res_bind (client_read c1) (\<lambda>helloResp c2.
     res_bind (received opts helloResp c2) (\<lambda>h c3.
     res_bind
       (if getStatus h = ''502'' then
          res_bind
            (client_write (''HELO '' @ interp (domain opts) @ CRLF)
               (debug opts (''[<] HELO '' @ interp (domain opts))
                  (console_warn ''[!] EHLO not supported, attempting HELO greeting'' c3)))
            (\<lambda>_ c4.
          res_bind (client_read c4) (\<lambda>helloResp c5. received opts helloResp c5))
        else Ok h c3) (\<lambda>h c6.
       if getStatus h \<noteq> ''250'' then Throw (improper h) c6
       else Ok () (console_log ''[*] Successfully greeted the server'' c6)))))"

definition p1_greeting :: "clientOpts \<Rightarrow> client \<Rightarrow> step" where
  "p1_greeting opts c0 =
     (case p1_greeting_try opts c0 of
        Ok _ c \<Rightarrow> Next c
      | Throw ex c \<Rightarrow>
          fatal Greeting (''[X] An error occurred during the greeting: '' @ exn_message ex) c)"

definition p1_authentication_try :: "clientOpts \<Rightarrow> client \<Rightarrow> unit res" where
  "p1_authentication_try opts c0 =
     res_bind
       (client_write (''AUTH LOGIN'' @ CRLF)
          (debug opts ''[<] AUTH LOGIN'' (console_log ''[*] Attempting authentication'' c0)))
       (\<lambda>_ c1.
     res_bind (client_read c1) (\<lambda>loginResp c2.
     res_bind (received opts loginResp c2) (\<lambda>l c3.
       if getStatus l \<noteq> ''334'' then Throw (improper l) c3
       else
     res_bind
       (client_write (btoa (user opts) @ CRLF) (debug opts (''[<] '' @ btoa (user opts)) c3))
       (\<lambda>_ c4.
     res_bind (client_read c4) (\<lambda>loginResp c5.
     res_bind (received opts loginResp c5) (\<lambda>l c6.
       if getStatus l \<noteq> ''334'' then Throw (improper l) c6
       else
     res_bind
       (client_write (btoa (interp (password opts)) @ CRLF)
          (debug opts (''[<] '' @ btoa (interp (password opts))) c6))
       (\<lambda>_ c7.
     res_bind (client_read c7) (\<lambda>loginResp c8.
     res_bind (received opts loginResp c8) (\<lambda>l c9.
       if getStatus l \<noteq> ''235'' then Throw (improper l) c9
       else Ok () (console_log ''[*] Authentication successful'' c9))))))))))"

definition p1_authentication :: "clientOpts \<Rightarrow> client \<Rightarrow> step" where
  "p1_authentication opts c0 =
     (if truthy (password opts) then
        (case p1_authentication_try opts c0 of
           Ok _ c \<Rightarrow> Next c
         | Throw ex c \<Rightarrow>
             fatal Authentication
               (''[X] An error occurred during authentication: '' @ exn_message ex) c)
      else Next c0)"

text \<open>
  The same try block and stage with the user and the password given by their code units,
  so that \<^verbatim>\<open>btoa\<close> can throw: the call comes after the 334 that precedes it and before
  the debug line and the write that print its result, and its exception is caught like
  any other of the block. \<open>p1_authentication\<close> is this stage for a user and a password
  inside the 8-bit strings.
\<close>

definition js_btoa :: "nat list \<Rightarrow> client \<Rightarrow> string res" where
  "js_btoa units c = (case btoa_units units of Inl ex \<Rightarrow> Throw ex c | Inr b \<Rightarrow> Ok b c)"

definition units_authentication_try ::
  "nat list \<Rightarrow> nat list \<Rightarrow> clientOpts \<Rightarrow> client \<Rightarrow> unit res" where
  "units_authentication_try usr pwd opts c0 =
     res_bind
       (client_write (''AUTH LOGIN'' @ CRLF)
          (debug opts ''[<] AUTH LOGIN'' (console_log ''[*] Attempting authentication'' c0)))
       (\<lambda>_ c1.
     res_bind (client_read c1) (\<lambda>loginResp c2.
     res_bind (received opts loginResp c2) (\<lambda>l c3.
       if getStatus l \<noteq> ''334'' then Throw (improper l) c3
       else
     res_bind (js_btoa usr c3) (\<lambda>u c3.
     res_bind (client_write (u @ CRLF) (debug opts (''[<] '' @ u) c3)) (\<lambda>_ c4.
     res_bind (client_read c4) (\<lambda>loginResp c5.
     res_bind (received opts loginResp c5) (\<lambda>l c6.
       if getStatus l \<noteq> ''334'' then Throw (improper l) c6
       else
     res_bind (js_btoa pwd c6) (\<lambda>p c6.
     res_bind (client_write (p @ CRLF) (debug opts (''[<] '' @ p) c6)) (\<lambda>_ c7.
     res_bind (client_read c7) (\<lambda>loginResp c8.
     res_bind (received opts loginResp c8) (\<lambda>l c9.
       if getStatus l \<noteq> ''235'' then Throw (improper l) c9
       else Ok () (console_log ''[*] Authentication successful'' c9))))))))))))"

definition units_authentication ::
  "nat list \<Rightarrow> nat list option \<Rightarrow> clientOpts \<Rightarrow> client \<Rightarrow> step" where
  "units_authentication usr pwd opts c0 =
     (case pwd of
        None \<Rightarrow> Next c0
      | Some p \<Rightarrow>
          if p = [] then Next c0
          else
            (case units_authentication_try usr p opts c0 of
               Ok _ c \<Rightarrow> Next c
             | Throw ex c \<Rightarrow>
                 fatal Authentication
                   (''[X] An error occurred during authentication: '' @ exn_message ex) c))"

definition p1_initiation_try :: "clientOpts \<Rightarrow> client \<Rightarrow> unit res" where
  "p1_initiation_try opts c0 =
     res_bind
       (client_write (''MAIL FROM: <'' @ sender opts @ ''>'' @ CRLF)
          (debug opts (''[<] MAIL FROM: <'' @ sender opts @ ''>'')
             (console_log ''[*] Initiating mail transfer'' c0))) (\<lambda>_ c1.
     res_bind (client_read c1) (\<lambda>userResp c2.
     res_bind (received opts userResp c2) (\<lambda>u c3.
       if getStatus u \<noteq> ''250'' then Throw (improper u) c3
       else
     res_bind
       (client_write (''RCPT TO: <'' @ recipient opts @ ''>'' @ CRLF)
          (debug opts (''[<] RCPT TO: <'' @ recipient opts @ ''>'') c3)) (\<lambda>_ c4.
     res_bind (client_read c4) (\<lambda>userResp c5.
     res_bind (received opts userResp c5) (\<lambda>u c6.
       if getStatus u \<noteq> ''250'' \<and> getStatus u \<noteq> ''251'' then Throw (improper u) c6
       else Ok () (console_log ''[*] Mail transfer initiated'' c6)))))))"

definition p1_initiation :: "clientOpts \<Rightarrow> client \<Rightarrow> step" where
  "p1_initiation opts c0 =
     (case p1_initiation_try opts c0 of
        Ok _ c \<Rightarrow> Next c
      | Throw ex c \<Rightarrow>
          fatal Initiation (''[X] An error occurred during initiation: '' @ exn_message ex) c)"

definition message_debug :: "clientOpts \<Rightarrow> string" where
  "message_debug opts =
     ''[<] From: <'' @ sender opts @ ''> To: <'' @ recipient opts
     @ ''> Subject: SMTP Test Email If you have received this email, your SMTP server is configured correctly .''"

definition p1_message_try :: "clientOpts \<Rightarrow> client \<Rightarrow> unit res" where
  "p1_message_try opts c0 =
     res_bind
       (client_write (''DATA'' @ CRLF)
          (debug opts ''[<] DATA'' (console_log ''[*] Attempting to send message'' c0)))
       (\<lambda>_ c1.
     res_bind (client_read c1) (\<lambda>dataResp c2.
     res_bind (received opts dataResp c2) (\<lambda>d c3.
       if getStatus d \<noteq> ''354'' then Throw (improper d) c3
       else
     res_bind (client_write (message_text opts) (debug opts (message_debug opts) c3)) (\<lambda>_ c4.
     res_bind (client_read c4) (\<lambda>dataResp c5.
     res_bind (received opts dataResp c5) (\<lambda>d c6.
       if getStatus d \<noteq> ''250'' then Throw (improper d) c6
       else Ok () (console_log ''[*] Message accepted by the SMTP server'' c6)))))))"

definition p1_message :: "clientOpts \<Rightarrow> client \<Rightarrow> step" where
  "p1_message opts c0 =
     (case p1_message_try opts c0 of
        Ok _ c \<Rightarrow> Next c
      | Throw ex c \<Rightarrow>
          fatal Message (''[X] An error occurred sending the message: '' @ exn_message ex) c)"

definition p1_quit :: "clientOpts \<Rightarrow> client \<Rightarrow> ending \<times> client" where
  "p1_quit opts c0 =
     (case client_write (''QUIT'' @ CRLF)
             (debug opts ''[<] QUIT'' (console_log ''[*] Closing connection'' c0)) of
        Ok _ c1 \<Rightarrow> (Completed, client_end c1)
      | Throw ex c1 \<Rightarrow> (Unhandled ex, unhandledRejection ex c1))"

definition p1_from_message :: "clientOpts \<Rightarrow> client \<Rightarrow> ending \<times> client" where
  "p1_from_message opts c = continue (p1_message opts c) (p1_quit opts)"

definition p1_from_initiation :: "clientOpts \<Rightarrow> client \<Rightarrow> ending \<times> client" where
  "p1_from_initiation opts c = continue (p1_initiation opts c) (p1_from_message opts)"

definition p1_from_authentication :: "clientOpts \<Rightarrow> client \<Rightarrow> ending \<times> client" where
  "p1_from_authentication opts c =
     continue (p1_authentication opts c) (p1_from_initiation opts)"

definition p1_from_greeting :: "clientOpts \<Rightarrow> client \<Rightarrow> ending \<times> client" where
  "p1_from_greeting opts c = continue (p1_greeting opts c) (p1_from_authentication opts)"

definition p1_from_banner :: "clientOpts \<Rightarrow> client \<Rightarrow> ending \<times> client" where
  "p1_from_banner opts c = continue (p1_banner opts c) (p1_from_greeting opts)"

definition p1_session :: "clientOpts \<Rightarrow> client \<Rightarrow> ending \<times> client" where
  "p1_session opts c = continue (p1_connect opts c) (p1_from_banner opts)"

section \<open>Observations on a run\<close>

definition can_write :: "nat \<Rightarrow> client \<Rightarrow> bool" where
  \<comment> \<open>the next n writes succeed\<close>
  "can_write n c = (case writable c of None \<Rightarrow> True | Some k \<Rightarrow> n \<le> k)"

fun is_next :: "step \<Rightarrow> bool" where
  "is_next (Next c) = True"
| "is_next (Exit e c) = False"

fun client_of :: "step \<Rightarrow> client" where
  "client_of (Next c) = c"
| "client_of (Exit e c) = c"

definition after_first_at :: "string \<Rightarrow> string" where
  \<comment> \<open>the substring following the first @\<close>
  "after_first_at s = drop (Suc (length (takeWhile (\<lambda>ch. ch \<noteq> CHR ''@'') s))) s"

fun is_debug :: "console_event \<Rightarrow> bool" where
  "is_debug (Debug m) = True"
| "is_debug (Log m) = False"
| "is_debug (Warn m) = False"
| "is_debug (Err m) = False"

definition quiet :: "client \<Rightarrow> client" where
  \<comment> \<open>the run without its debug trace\<close>
  "quiet c = c\<lparr>console := filter (\<lambda>e. \<not> is_debug e) (console c)\<rparr>"

fun res_quiet :: "'a res \<Rightarrow> 'a res" where
  "res_quiet (Ok a c) = Ok a (quiet c)"
| "res_quiet (Throw ex c) = Throw ex (quiet c)"

fun step_quiet :: "step \<Rightarrow> step" where
  "step_quiet (Next c) = Next (quiet c)"
| "step_quiet (Exit e c) = Exit e (quiet c)"



subsection \<open>Scripted servers\<close>

definition fresh :: "read_result list \<Rightarrow> client" where
  \<comment> \<open>before the connect, with a server that accepts it and then plays the script\<close>
  "fresh script = \<lparr>connect_result = None, inbox = script, writable = None,
     write_failure = ErrObj ''Error'' ''write EPIPE'', stack_text = (\<lambda>ex. []),
     promise_text = (\<lambda>ex. []), sent = [], console = [], sock = Unconnected\<rparr>"

definition connected :: "read_result list \<Rightarrow> client" where
  "connected script = (fresh script)\<lparr>sock := Connected\<rparr>"


definition alice_argv :: argv where
  "alice_argv = \<lparr>argv_help = False, argv_v = False, argv_u = Some ''alice'', argv_s = None,
     argv_r = Some ''bob@example.test'', argv_h = Some ''mail.example.test'', argv_p = None,
     argv_o = None\<rparr>"

definition carol_argv :: argv where
  "carol_argv = alice_argv\<lparr>argv_u := Some ''carol@example.com''\<rparr>"

definition carol_opts :: clientOpts where
  "carol_opts = \<lparr>user = ''carol@example.com'', sender = ''carol@example.com'',
     domain = Some ''example.com'', recipient = ''bob@example.test'',
     host = ''mail.example.test'', password = None, port = PortNumber 25, verbose = False\<rparr>"

definition wide_user :: "nat list" where
  \<comment> \<open>the code units of a user that begins with the characters U+7528 and U+6237\<close>
  "wide_user = [0x7528, 0x6237] @ map of_char ''@example.com''"

definition alice_opts :: clientOpts where
  "alice_opts = \<lparr>user = ''alice'', sender = ''alice'', domain = None,
     recipient = ''bob@example.test'', host = ''mail.example.test'', password = None,
     port = PortNumber 25, verbose = False\<rparr>"

definition accepting :: "read_result list" where
  \<comment> \<open>a server that accepts every step of a run without authentication\<close>
  "accepting = [Chunk (''220 mail.example.test ESMTP'' @ CRLF), Chunk (''250 hello'' @ CRLF),
     Chunk (''250 sender ok'' @ CRLF), Chunk (''250 recipient ok'' @ CRLF),
     Chunk (''354 end data with a dot'' @ CRLF), Chunk (''250 queued'' @ CRLF)]"

section \<open>Basic facts\<close>

lemma substring_0_3 [simp]: "substring s 0 3 = take 3 s"
  by (simp add: substring_def)

lemma console_fields [simp]:
  "inbox (console_log m c) = inbox c" "writable (console_log m c) = writable c"
  "sent (console_log m c) = sent c" "sock (console_log m c) = sock c"
  "inbox (console_warn m c) = inbox c" "writable (console_warn m c) = writable c"
  "sent (console_warn m c) = sent c" "sock (console_warn m c) = sock c"
  "inbox (console_error m c) = inbox c" "writable (console_error m c) = writable c"
  "sent (console_error m c) = sent c" "sock (console_error m c) = sock c"
  "inbox (console_debug m c) = inbox c" "writable (console_debug m c) = writable c"
  "sent (console_debug m c) = sent c" "sock (console_debug m c) = sock c"
  by (simp_all add: console_log_def console_warn_def console_error_def console_debug_def)

lemma console_runtime_fields [simp]:
  "write_failure (console_log m c) = write_failure c"
  "write_failure (console_warn m c) = write_failure c"
  "write_failure (console_error m c) = write_failure c"
  "write_failure (console_debug m c) = write_failure c"
  "stack_text (console_log m c) = stack_text c" "stack_text (console_warn m c) = stack_text c"
  "stack_text (console_error m c) = stack_text c" "stack_text (console_debug m c) = stack_text c"
  "promise_text (console_log m c) = promise_text c"
  "promise_text (console_warn m c) = promise_text c"
  "promise_text (console_error m c) = promise_text c"
  "promise_text (console_debug m c) = promise_text c"
  by (simp_all add: console_log_def console_warn_def console_error_def console_debug_def)

lemma unhandledRejection_fields [simp]:
  "inbox (unhandledRejection ex c) = inbox c" "writable (unhandledRejection ex c) = writable c"
  "sent (unhandledRejection ex c) = sent c" "sock (unhandledRejection ex c) = sock c"
  by (simp_all add: unhandledRejection_def)

lemma debug_fields [simp]:
  "inbox (debug opts m c) = inbox c" "writable (debug opts m c) = writable c"
  "sent (debug opts m c) = sent c" "sock (debug opts m c) = sock c"
  "write_failure (debug opts m c) = write_failure c" "stack_text (debug opts m c) = stack_text c"
  "promise_text (debug opts m c) = promise_text c"
  by (simp_all add: debug_def)

lemmas io = client_write_def client_read_def toString_def fatal_def client_destroy_def
  client_end_def can_write_def received_def

lemmas scripted = fresh_def connected_def carol_opts_def CRLF_def interp_def

lemma parse_carol: "parse_argv carol_argv = Some carol_opts"
  by (simp add: parse_argv_def carol_argv_def alice_argv_def carol_opts_def truthy_def
      interp_def split_def index_def)

lemma getStatus_code:
  "length code = 3 \<Longrightarrow> list_all is_digit code \<Longrightarrow> getStatus r = code \<longleftrightarrow> take 3 r = code"
  by (auto simp: getStatus_def Let_def no_code_def)

lemma getStatus_codes [simp]:
  "getStatus r = ''220'' \<longleftrightarrow> take 3 r = ''220''"
  "getStatus r = ''250'' \<longleftrightarrow> take 3 r = ''250''"
  "getStatus r = ''251'' \<longleftrightarrow> take 3 r = ''251''"
  "getStatus r = ''502'' \<longleftrightarrow> take 3 r = ''502''"
  "getStatus r = ''334'' \<longleftrightarrow> take 3 r = ''334''"
  "getStatus r = ''235'' \<longleftrightarrow> take 3 r = ''235''"
  "getStatus r = ''354'' \<longleftrightarrow> take 3 r = ''354''"
  by (simp_all add: getStatus_code is_digit_def)

lemma btoa_units_of_string: "btoa_units (map of_char s) = Inr (btoa s)"
proof -
  have "(of_char ch :: nat) \<le> 255" for ch
  proof -
    have "(of_char ch :: nat) mod 256 = of_char ch" by (rule of_char_mod_256)
    moreover have "(of_char ch :: nat) mod 256 < 256" by (rule mod_less_divisor) simp
    ultimately show ?thesis by linarith
  qed
  then have "list_all (\<lambda>u. u \<le> 255) (map of_char s :: nat list)"
    by (simp add: list_all_iff)
  then show ?thesis by (simp add: btoa_units_def btoa_def)
qed

lemma p1_authentication_try_units:
  "p1_authentication_try opts c
     = units_authentication_try (map of_char (user opts))
         (map of_char (interp (password opts))) opts c"
  by (simp add: p1_authentication_try_def units_authentication_try_def js_btoa_def
      btoa_units_of_string cong: if_cong)

lemma p1_authentication_units:
  "p1_authentication opts c
     = units_authentication (map of_char (user opts))
         (map_option (map of_char) (password opts)) opts c"
  by (simp add: p1_authentication_def units_authentication_def p1_authentication_try_units
      truthy_def interp_def split: option.splits)

section \<open>Response parsing\<close>

text \<open>
  C5. The response parser is a total function of the raw reply: it returns the first three
  characters when they are three digits and the "no code" value otherwise, so also on the
  empty reply; the reply "220 ok" followed by CRLF parses to "220"; and parsing a parsed
  result gives the same value again.
\<close>

theorem getStatus_total_idempotent:
  "getStatus (''220 ok'' @ CRLF) = ''220''
   \<and> getStatus [] = no_code
   \<and> getStatus r = (if 3 \<le> length r \<and> list_all is_digit (take 3 r) then take 3 r else no_code)
   \<and> getStatus (getStatus r) = getStatus r"
  by (auto simp: getStatus_def Let_def no_code_def is_digit_def CRLF_def)

section \<open>Greeting\<close>

lemma sk_greeting_exit:
  "\<not> is_next (sk_greeting opts c) \<Longrightarrow>
     sk_from_greeting opts c = (Failed Greeting, client_of (sk_greeting opts c))
     \<and> sock (client_of (sk_greeting opts c)) = Destroyed"
  by (auto simp: sk_from_greeting_def sk_greeting_def fatal_def client_destroy_def
      split: res.splits)

lemma p1_greeting_exit:
  "\<not> is_next (p1_greeting opts c) \<Longrightarrow>
     p1_from_greeting opts c = (Failed Greeting, client_of (p1_greeting opts c))
     \<and> sock (client_of (p1_greeting opts c)) = Destroyed"
  by (auto simp: p1_from_greeting_def p1_greeting_def fatal_def client_destroy_def
      split: res.splits)

text \<open>
  C1. The greeting stage, entered with a reply \<open>r1\<close> to come and a socket that takes the
  write: EHLO with the domain is written first. If the status of \<open>r1\<close> is not 502, nothing
  else is written and the stage succeeds exactly when the status is 250. If it is 502 (and
  the socket takes a second write), HELO with the domain is written, once, and nothing
  after it whatever the server does next; with a second reply \<open>r2\<close> the stage succeeds
  exactly when the status of \<open>r2\<close> is 250, so a second 502 fails it. A greeting stage that
  does not succeed ends the run as failed at the greeting, the socket destroyed. This
  holds for shokuhou.js (status by \<^verbatim>\<open>substring(0,3)\<close>) and for the script with
  authentication (status by \<^verbatim>\<open>getStatus\<close>).
\<close>

theorem greeting_ehlo_helo_fallback:
  assumes "inbox c = Chunk r1 # tail" and "can_write 1 c"
  shows
   "(substring r1 0 3 \<noteq> ''502'' \<longrightarrow>
       sent (client_of (sk_greeting opts c)) = sent c @ [''EHLO '' @ interp (domain opts) @ CRLF]
       \<and> (is_next (sk_greeting opts c) \<longleftrightarrow> substring r1 0 3 = ''250''))
    \<and> (substring r1 0 3 = ''502'' \<longrightarrow> can_write 2 c \<longrightarrow>
         sent (client_of (sk_greeting opts c))
           = sent c @ [''EHLO '' @ interp (domain opts) @ CRLF,
                       ''HELO '' @ interp (domain opts) @ CRLF]
         \<and> (\<forall>r2 rest. tail = Chunk r2 # rest \<longrightarrow>
                (is_next (sk_greeting opts c) \<longleftrightarrow> substring r2 0 3 = ''250'')))
    \<and> (\<not> is_next (sk_greeting opts c) \<longrightarrow>
         sk_from_greeting opts c = (Failed Greeting, client_of (sk_greeting opts c))
         \<and> sock (client_of (sk_greeting opts c)) = Destroyed)
    \<and> (getStatus r1 \<noteq> ''502'' \<longrightarrow>
       sent (client_of (p1_greeting opts c)) = sent c @ [''EHLO '' @ interp (domain opts) @ CRLF]
       \<and> (is_next (p1_greeting opts c) \<longleftrightarrow> getStatus r1 = ''250''))
    \<and> (getStatus r1 = ''502'' \<longrightarrow> can_write 2 c \<longrightarrow>
         sent (client_of (p1_greeting opts c))
           = sent c @ [''EHLO '' @ interp (domain opts) @ CRLF,
                       ''HELO '' @ interp (domain opts) @ CRLF]
         \<and> (\<forall>r2 rest. tail = Chunk r2 # rest \<longrightarrow>
                (is_next (p1_greeting opts c) \<longleftrightarrow> getStatus r2 = ''250'')))
    \<and> (\<not> is_next (p1_greeting opts c) \<longrightarrow>
         p1_from_greeting opts c = (Failed Greeting, client_of (p1_greeting opts c))
         \<and> sock (client_of (p1_greeting opts c)) = Destroyed)"
   (is "?S1 \<and> ?S2 \<and> ?S3 \<and> ?P1 \<and> ?P2 \<and> ?P3")
proof -
  have s1: ?S1
    using assms
    by (auto simp: sk_greeting_def sk_greeting_try_def io
        split: option.splits nat.splits if_splits)
  have s2: ?S2
    using assms
    by (auto simp: sk_greeting_def sk_greeting_try_def io
        split: option.splits nat.splits if_splits list.splits read_result.splits)
  have p1: ?P1
    using assms
    by (auto simp: p1_greeting_def p1_greeting_try_def io
        split: option.splits nat.splits if_splits)
  have p2: ?P2
    using assms
    by (auto simp: p1_greeting_def p1_greeting_try_def io
        split: option.splits nat.splits if_splits list.splits read_result.splits)
  have s3: ?S3 using sk_greeting_exit [of opts c] by blast
  have p3: ?P3 using p1_greeting_exit [of opts c] by blast
  from s1 s2 s3 p1 p2 p3 show ?thesis by (intro conjI)
qed

theorem greeting_ehlo_helo_fallback_witness:
  "sent (client_of (sk_greeting carol_opts (connected [Chunk ''502 no'', Chunk ''502 still no''])))
     = [''EHLO example.com'' @ CRLF, ''HELO example.com'' @ CRLF]
   \<and> \<not> is_next (sk_greeting carol_opts (connected [Chunk ''502 no'', Chunk ''502 still no'']))
   \<and> sk_from_greeting carol_opts (connected [Chunk ''502 no'', Chunk ''502 still no''])
      = (Failed Greeting,
         client_of (sk_greeting carol_opts (connected [Chunk ''502 no'', Chunk ''502 still no''])))
   \<and> is_next (p1_greeting carol_opts (connected [Chunk ''502 no'', Chunk ''250 hello'']))
   \<and> sent (client_of (p1_greeting carol_opts (connected [Chunk ''502 no'', Chunk ''250 hello''])))
     = [''EHLO example.com'' @ CRLF, ''HELO example.com'' @ CRLF]"
  using greeting_ehlo_helo_fallback [of "connected [Chunk ''502 no'', Chunk ''502 still no'']"
      "''502 no''" "[Chunk ''502 still no'']" carol_opts]
    greeting_ehlo_helo_fallback [of "connected [Chunk ''502 no'', Chunk ''250 hello'']"
      "''502 no''" "[Chunk ''250 hello'']" carol_opts]
  by (simp add: can_write_def scripted)

section \<open>Mail transfer\<close>

lemma sk_message_first:
  "can_write 1 c \<Longrightarrow> \<exists>ws. sent (snd (sk_from_message opts c)) = sent c @ (''DATA'' @ CRLF) # ws"
  by (auto simp: sk_from_message_def sk_message_def sk_message_try_def sk_quit_def io
      split: option.splits nat.splits list.splits read_result.splits)

lemma p1_message_first:
  "can_write 1 c \<Longrightarrow> \<exists>ws. sent (snd (p1_from_message opts c)) = sent c @ (''DATA'' @ CRLF) # ws"
  by (auto simp: p1_from_message_def p1_message_def p1_message_try_def p1_quit_def io
      split: option.splits nat.splits list.splits read_result.splits)

lemma sk_initiation_exit:
  "\<not> is_next (sk_initiation opts c) \<Longrightarrow>
     sk_from_initiation opts c = (Failed Initiation, client_of (sk_initiation opts c))
     \<and> sock (client_of (sk_initiation opts c)) = Destroyed"
  by (auto simp: sk_from_initiation_def sk_initiation_def fatal_def client_destroy_def
      split: res.splits)

lemma p1_initiation_exit:
  "\<not> is_next (p1_initiation opts c) \<Longrightarrow>
     p1_from_initiation opts c = (Failed Initiation, client_of (p1_initiation opts c))
     \<and> sock (client_of (p1_initiation opts c)) = Destroyed"
  by (auto simp: p1_from_initiation_def p1_initiation_def fatal_def client_destroy_def
      split: res.splits)

lemma sk_initiation_next:
  "is_next (sk_initiation opts c) \<Longrightarrow>
     sk_from_initiation opts c = sk_from_message opts (client_of (sk_initiation opts c))"
  by (cases "sk_initiation opts c") (auto simp: sk_from_initiation_def)

lemma p1_initiation_next:
  "is_next (p1_initiation opts c) \<Longrightarrow>
     p1_from_initiation opts c = p1_from_message opts (client_of (p1_initiation opts c))"
  by (cases "p1_initiation opts c") (auto simp: p1_from_initiation_def)

lemma sk_rcpt:
  assumes "inbox c = Chunk m # Chunk r # rest" and "can_write 2 c" "substring m 0 3 = ''250''"
  shows "sent (client_of (sk_initiation opts c))
           = sent c @ [''MAIL FROM: <'' @ sender opts @ ''>'' @ CRLF,
                       ''RCPT TO: <'' @ recipient opts @ ''>'' @ CRLF]
         \<and> (is_next (sk_initiation opts c)
              \<longleftrightarrow> substring r 0 3 = ''250'' \<or> substring r 0 3 = ''251'')
         \<and> can_write 1 (client_of (sk_initiation opts c)) = can_write 3 c"
  using assms
  by (auto simp: sk_initiation_def sk_initiation_try_def io
      split: option.splits nat.splits if_splits)

lemma p1_rcpt:
  assumes "inbox c = Chunk m # Chunk r # rest" and "can_write 2 c" "getStatus m = ''250''"
  shows "sent (client_of (p1_initiation opts c))
           = sent c @ [''MAIL FROM: <'' @ sender opts @ ''>'' @ CRLF,
                       ''RCPT TO: <'' @ recipient opts @ ''>'' @ CRLF]
         \<and> (is_next (p1_initiation opts c)
              \<longleftrightarrow> getStatus r = ''250'' \<or> getStatus r = ''251'')
         \<and> can_write 1 (client_of (p1_initiation opts c)) = can_write 3 c"
  using assms
  by (auto simp: p1_initiation_def p1_initiation_try_def io
      split: option.splits nat.splits if_splits)

text \<open>
  C3. The initiation try block, entered with the replies \<open>m\<close> to MAIL FROM and \<open>r\<close> to
  RCPT TO to come and a socket that takes both writes: when the status of \<open>m\<close> is 250,
  RCPT TO for the configured recipient is written and the stage succeeds exactly when the
  status of \<open>r\<close> is 250 or 251. On success the run goes on with the message stage, whose
  first write is DATA; otherwise the run ends as failed, the socket destroyed. This holds
  for shokuhou.js and for the script with authentication.
\<close>

theorem rcpt_to_accepts_250_251:
  assumes "inbox c = Chunk m # Chunk r # rest" and "can_write 2 c"
  shows
   "(substring m 0 3 = ''250'' \<longrightarrow>
       sent (client_of (sk_initiation opts c))
         = sent c @ [''MAIL FROM: <'' @ sender opts @ ''>'' @ CRLF,
                     ''RCPT TO: <'' @ recipient opts @ ''>'' @ CRLF]
       \<and> (is_next (sk_initiation opts c)
            \<longleftrightarrow> substring r 0 3 = ''250'' \<or> substring r 0 3 = ''251''))
    \<and> (is_next (sk_initiation opts c) \<longrightarrow>
         sk_from_initiation opts c = sk_from_message opts (client_of (sk_initiation opts c)))
    \<and> (substring m 0 3 = ''250'' \<longrightarrow> is_next (sk_initiation opts c) \<longrightarrow> can_write 3 c \<longrightarrow>
         (\<exists>ws. sent (snd (sk_from_initiation opts c))
            = sent c @ [''MAIL FROM: <'' @ sender opts @ ''>'' @ CRLF,
                        ''RCPT TO: <'' @ recipient opts @ ''>'' @ CRLF, ''DATA'' @ CRLF] @ ws))
    \<and> (\<not> is_next (sk_initiation opts c) \<longrightarrow>
         sk_from_initiation opts c = (Failed Initiation, client_of (sk_initiation opts c))
         \<and> sock (client_of (sk_initiation opts c)) = Destroyed)
    \<and> (getStatus m = ''250'' \<longrightarrow>
       sent (client_of (p1_initiation opts c))
         = sent c @ [''MAIL FROM: <'' @ sender opts @ ''>'' @ CRLF,
                     ''RCPT TO: <'' @ recipient opts @ ''>'' @ CRLF]
       \<and> (is_next (p1_initiation opts c)
            \<longleftrightarrow> getStatus r = ''250'' \<or> getStatus r = ''251''))
    \<and> (is_next (p1_initiation opts c) \<longrightarrow>
         p1_from_initiation opts c = p1_from_message opts (client_of (p1_initiation opts c)))
    \<and> (getStatus m = ''250'' \<longrightarrow> is_next (p1_initiation opts c) \<longrightarrow> can_write 3 c \<longrightarrow>
         (\<exists>ws. sent (snd (p1_from_initiation opts c))
            = sent c @ [''MAIL FROM: <'' @ sender opts @ ''>'' @ CRLF,
                        ''RCPT TO: <'' @ recipient opts @ ''>'' @ CRLF, ''DATA'' @ CRLF] @ ws))
    \<and> (\<not> is_next (p1_initiation opts c) \<longrightarrow>
         p1_from_initiation opts c = (Failed Initiation, client_of (p1_initiation opts c))
         \<and> sock (client_of (p1_initiation opts c)) = Destroyed)"
   (is "?S1 \<and> ?S2 \<and> ?S3 \<and> ?S4 \<and> ?P1 \<and> ?P2 \<and> ?P3 \<and> ?P4")
proof -
  have s1: ?S1 using sk_rcpt [OF assms, of opts] by blast
  have p1: ?P1 using p1_rcpt [OF assms, of opts] by blast
  have s2: ?S2 using sk_initiation_next [of opts c] by blast
  have p2: ?P2 using p1_initiation_next [of opts c] by blast
  have s4: ?S4 using sk_initiation_exit [of opts c] by blast
  have p4: ?P4 using p1_initiation_exit [of opts c] by blast
  have s3: ?S3
  proof (intro impI)
    assume ok: "substring m 0 3 = ''250''" and nxt: "is_next (sk_initiation opts c)"
      and w: "can_write 3 c"
    from sk_rcpt [OF assms ok, of opts] w
    have w1: "can_write 1 (client_of (sk_initiation opts c))" by simp
    from sk_message_first [OF w1, of opts] obtain ws where
      "sent (snd (sk_from_message opts (client_of (sk_initiation opts c))))
         = sent (client_of (sk_initiation opts c)) @ (''DATA'' @ CRLF) # ws" by blast
    with sk_rcpt [OF assms ok, of opts] sk_initiation_next [OF nxt]
    show "\<exists>ws. sent (snd (sk_from_initiation opts c))
            = sent c @ [''MAIL FROM: <'' @ sender opts @ ''>'' @ CRLF,
                        ''RCPT TO: <'' @ recipient opts @ ''>'' @ CRLF, ''DATA'' @ CRLF] @ ws"
      by simp
  qed
  have p3: ?P3
  proof (intro impI)
    assume ok: "getStatus m = ''250''" and nxt: "is_next (p1_initiation opts c)"
      and w: "can_write 3 c"
    from p1_rcpt [OF assms ok, of opts] w
    have w1: "can_write 1 (client_of (p1_initiation opts c))" by simp
    from p1_message_first [OF w1, of opts] obtain ws where
      "sent (snd (p1_from_message opts (client_of (p1_initiation opts c))))
         = sent (client_of (p1_initiation opts c)) @ (''DATA'' @ CRLF) # ws" by blast
    with p1_rcpt [OF assms ok, of opts] p1_initiation_next [OF nxt]
    show "\<exists>ws. sent (snd (p1_from_initiation opts c))
            = sent c @ [''MAIL FROM: <'' @ sender opts @ ''>'' @ CRLF,
                        ''RCPT TO: <'' @ recipient opts @ ''>'' @ CRLF, ''DATA'' @ CRLF] @ ws"
      by simp
  qed
  from s1 s2 s3 s4 p1 p2 p3 p4 show ?thesis by (intro conjI)
qed

theorem rcpt_to_accepts_250_251_witness:
  "is_next (sk_initiation carol_opts (connected [Chunk ''250 ok'', Chunk ''251 forwarding'']))
   \<and> is_next (p1_initiation carol_opts (connected [Chunk ''250 ok'', Chunk ''251 forwarding'']))
   \<and> sk_from_initiation carol_opts (connected [Chunk ''250 ok'', Chunk ''550 no''])
      = (Failed Initiation,
         client_of (sk_initiation carol_opts (connected [Chunk ''250 ok'', Chunk ''550 no''])))
   \<and> p1_from_initiation carol_opts (connected [Chunk ''250 ok'', Chunk ''550 no''])
      = (Failed Initiation,
         client_of (p1_initiation carol_opts (connected [Chunk ''250 ok'', Chunk ''550 no''])))
   \<and> sent (client_of (p1_initiation carol_opts (connected [Chunk ''250 ok'', Chunk ''550 no''])))
      = [''MAIL FROM: <carol@example.com>'' @ CRLF, ''RCPT TO: <bob@example.test>'' @ CRLF]"
  using rcpt_to_accepts_250_251 [of "connected [Chunk ''250 ok'', Chunk ''251 forwarding'']"
      "''250 ok''" "''251 forwarding''" "[]" carol_opts]
    rcpt_to_accepts_250_251 [of "connected [Chunk ''250 ok'', Chunk ''550 no'']"
      "''250 ok''" "''550 no''" "[]" carol_opts]
  by (simp add: can_write_def scripted)

section \<open>Message data\<close>

lemma sk_message_exit:
  "\<not> is_next (sk_message opts c) \<Longrightarrow>
     sk_from_message opts c = (Failed Message, client_of (sk_message opts c))
     \<and> sock (client_of (sk_message opts c)) = Destroyed"
  by (auto simp: sk_from_message_def sk_message_def fatal_def client_destroy_def
      split: res.splits)

lemma p1_message_exit:
  "\<not> is_next (p1_message opts c) \<Longrightarrow>
     p1_from_message opts c = (Failed Message, client_of (p1_message opts c))
     \<and> sock (client_of (p1_message opts c)) = Destroyed"
  by (auto simp: p1_from_message_def p1_message_def fatal_def client_destroy_def
      split: res.splits)

lemma sk_data_rejected:
  assumes "inbox c = Chunk d # tail" and "can_write 1 c" and "substring d 0 3 \<noteq> ''354''"
  shows "sent (client_of (sk_message opts c)) = sent c @ [''DATA'' @ CRLF]
         \<and> \<not> is_next (sk_message opts c)"
  using assms
  by (auto simp: sk_message_def sk_message_try_def io split: option.splits nat.splits if_splits)

lemma p1_data_rejected:
  assumes "inbox c = Chunk d # tail" and "can_write 1 c" and "getStatus d \<noteq> ''354''"
  shows "sent (client_of (p1_message opts c)) = sent c @ [''DATA'' @ CRLF]
         \<and> \<not> is_next (p1_message opts c)"
  using assms
  by (auto simp: p1_message_def p1_message_try_def io split: option.splits nat.splits if_splits)

lemma sk_data_body:
  assumes "inbox c = Chunk d # Chunk b # rest" and "can_write 2 c" and "substring d 0 3 = ''354''"
  shows "sent (client_of (sk_message opts c)) = sent c @ [''DATA'' @ CRLF, message_text opts]
         \<and> (is_next (sk_message opts c) \<longleftrightarrow> substring b 0 3 = ''250'')"
  using assms
  by (auto simp: sk_message_def sk_message_try_def io split: option.splits nat.splits if_splits)

lemma p1_data_body:
  assumes "inbox c = Chunk d # Chunk b # rest" and "can_write 2 c" and "getStatus d = ''354''"
  shows "sent (client_of (p1_message opts c)) = sent c @ [''DATA'' @ CRLF, message_text opts]
         \<and> (is_next (p1_message opts c) \<longleftrightarrow> getStatus b = ''250'')"
  using assms
  by (auto simp: p1_message_def p1_message_try_def io split: option.splits nat.splits if_splits)

lemma message_text_neq_DATA: "message_text opts \<noteq> CHR ''D'' # t"
  by (simp add: message_text_def)

lemma sk_body_needs_354:
  "message_text opts \<in> set (drop (length (sent c)) (sent (client_of (sk_message opts c)))) \<Longrightarrow>
     \<exists>d tail. inbox c = Chunk d # tail \<and> substring d 0 3 = ''354''"
  by (auto simp: sk_message_def sk_message_try_def io message_text_neq_DATA
      split: option.splits nat.splits if_splits list.splits read_result.splits)

lemma p1_body_needs_354:
  "message_text opts \<in> set (drop (length (sent c)) (sent (client_of (p1_message opts c)))) \<Longrightarrow>
     \<exists>d tail. inbox c = Chunk d # tail \<and> getStatus d = ''354''"
  by (auto simp: p1_message_def p1_message_try_def io message_text_neq_DATA
      split: option.splits nat.splits if_splits list.splits read_result.splits)

lemma message_text_ends: "\<exists>lines. message_text opts = lines @ CRLF @ ''.'' @ CRLF"
  unfolding message_text_def by (metis append.assoc)

text \<open>
  C4. The message try block, entered with a reply \<open>d\<close> to DATA to come and a socket that
  takes the writes: when the status of \<open>d\<close> is not 354 only DATA is written and the stage
  fails; when it is 354 the message is written next, and with a reply \<open>b\<close> to it the stage
  succeeds exactly when the status of \<open>b\<close> is 250. When it is not, the run ends as failed
  at the message stage with the socket destroyed, and the writes of the whole rest of the
  run are DATA and the message: QUIT is not written. In any state, the message is among
  the writes of the stage only if the reply to DATA was read with status 354. The message
  ends with a line holding a single dot. This holds for shokuhou.js and for the script with
  authentication.
\<close>

theorem data_body_after_354:
  assumes "inbox c = Chunk d # tail" and "can_write 2 c"
  shows
   "(substring d 0 3 \<noteq> ''354'' \<longrightarrow>
       sent (client_of (sk_message opts c)) = sent c @ [''DATA'' @ CRLF]
       \<and> \<not> is_next (sk_message opts c))
    \<and> (substring d 0 3 = ''354'' \<longrightarrow>
         (\<forall>b rest. tail = Chunk b # rest \<longrightarrow>
            sent (client_of (sk_message opts c)) = sent c @ [''DATA'' @ CRLF, message_text opts]
            \<and> (is_next (sk_message opts c) \<longleftrightarrow> substring b 0 3 = ''250'')
            \<and> (substring b 0 3 \<noteq> ''250'' \<longrightarrow>
                 fst (sk_from_message opts c) = Failed Message
                 \<and> sent (snd (sk_from_message opts c))
                    = sent c @ [''DATA'' @ CRLF, message_text opts]
                 \<and> sock (snd (sk_from_message opts c)) = Destroyed)))
    \<and> (\<forall>c'. message_text opts
               \<in> set (drop (length (sent c')) (sent (client_of (sk_message opts c')))) \<longrightarrow>
             (\<exists>d' t'. inbox c' = Chunk d' # t' \<and> substring d' 0 3 = ''354''))
    \<and> (\<not> is_next (sk_message opts c) \<longrightarrow>
         sk_from_message opts c = (Failed Message, client_of (sk_message opts c))
         \<and> sock (client_of (sk_message opts c)) = Destroyed)
    \<and> (getStatus d \<noteq> ''354'' \<longrightarrow>
       sent (client_of (p1_message opts c)) = sent c @ [''DATA'' @ CRLF]
       \<and> \<not> is_next (p1_message opts c))
    \<and> (getStatus d = ''354'' \<longrightarrow>
         (\<forall>b rest. tail = Chunk b # rest \<longrightarrow>
            sent (client_of (p1_message opts c)) = sent c @ [''DATA'' @ CRLF, message_text opts]
            \<and> (is_next (p1_message opts c) \<longleftrightarrow> getStatus b = ''250'')
            \<and> (getStatus b \<noteq> ''250'' \<longrightarrow>
                 fst (p1_from_message opts c) = Failed Message
                 \<and> sent (snd (p1_from_message opts c))
                    = sent c @ [''DATA'' @ CRLF, message_text opts]
                 \<and> sock (snd (p1_from_message opts c)) = Destroyed)))
    \<and> (\<forall>c'. message_text opts
               \<in> set (drop (length (sent c')) (sent (client_of (p1_message opts c')))) \<longrightarrow>
             (\<exists>d' t'. inbox c' = Chunk d' # t' \<and> getStatus d' = ''354''))
    \<and> (\<not> is_next (p1_message opts c) \<longrightarrow>
         p1_from_message opts c = (Failed Message, client_of (p1_message opts c))
         \<and> sock (client_of (p1_message opts c)) = Destroyed)
    \<and> (\<exists>lines. message_text opts = lines @ CRLF @ ''.'' @ CRLF)"
   (is "?S1 \<and> ?S2 \<and> ?S3 \<and> ?S4 \<and> ?P1 \<and> ?P2 \<and> ?P3 \<and> ?P4 \<and> ?B")
proof -
  have w1: "can_write 1 c"
    using assms(2) by (auto simp: can_write_def split: option.splits)
  have s1: ?S1 using sk_data_rejected [OF assms(1) w1, of opts] by blast
  have p1: ?P1 using p1_data_rejected [OF assms(1) w1, of opts] by blast
  have s2: ?S2
  proof (intro impI allI)
    fix b rest
    assume ok: "substring d 0 3 = ''354''" and t: "tail = Chunk b # rest"
    from assms(1) t have i: "inbox c = Chunk d # Chunk b # rest" by simp
    note body = sk_data_body [OF i assms(2) ok, of opts]
    have "fst (sk_from_message opts c) = Failed Message
          \<and> sent (snd (sk_from_message opts c)) = sent c @ [''DATA'' @ CRLF, message_text opts]
          \<and> sock (snd (sk_from_message opts c)) = Destroyed"
      if "substring b 0 3 \<noteq> ''250''"
      using that body sk_message_exit [of opts c] by simp
    with body show "sent (client_of (sk_message opts c))
              = sent c @ [''DATA'' @ CRLF, message_text opts]
            \<and> (is_next (sk_message opts c) \<longleftrightarrow> substring b 0 3 = ''250'')
            \<and> (substring b 0 3 \<noteq> ''250'' \<longrightarrow>
                 fst (sk_from_message opts c) = Failed Message
                 \<and> sent (snd (sk_from_message opts c))
                    = sent c @ [''DATA'' @ CRLF, message_text opts]
                 \<and> sock (snd (sk_from_message opts c)) = Destroyed)"
      by blast
  qed
  have p2: ?P2
  proof (intro impI allI)
    fix b rest
    assume ok: "getStatus d = ''354''" and t: "tail = Chunk b # rest"
    from assms(1) t have i: "inbox c = Chunk d # Chunk b # rest" by simp
    note body = p1_data_body [OF i assms(2) ok, of opts]
    have "fst (p1_from_message opts c) = Failed Message
          \<and> sent (snd (p1_from_message opts c)) = sent c @ [''DATA'' @ CRLF, message_text opts]
          \<and> sock (snd (p1_from_message opts c)) = Destroyed"
      if "getStatus b \<noteq> ''250''"
      using that body p1_message_exit [of opts c] by simp
    with body show "sent (client_of (p1_message opts c))
              = sent c @ [''DATA'' @ CRLF, message_text opts]
            \<and> (is_next (p1_message opts c) \<longleftrightarrow> getStatus b = ''250'')
            \<and> (getStatus b \<noteq> ''250'' \<longrightarrow>
                 fst (p1_from_message opts c) = Failed Message
                 \<and> sent (snd (p1_from_message opts c))
                    = sent c @ [''DATA'' @ CRLF, message_text opts]
                 \<and> sock (snd (p1_from_message opts c)) = Destroyed)"
      by blast
  qed
  have s3: ?S3 using sk_body_needs_354 [of opts] by blast
  have p3: ?P3 using p1_body_needs_354 [of opts] by blast
  have s4: ?S4 using sk_message_exit [of opts c] by blast
  have p4: ?P4 using p1_message_exit [of opts c] by blast
  have b: ?B by (rule message_text_ends)
  from s1 s2 s3 s4 p1 p2 p3 p4 b show ?thesis by (intro conjI)
qed

theorem data_body_after_354_witness:
  "fst (sk_from_message carol_opts (connected [Chunk ''354 go ahead'', Chunk ''550 rejected'']))
     = Failed Message
   \<and> sent (snd (sk_from_message carol_opts
        (connected [Chunk ''354 go ahead'', Chunk ''550 rejected''])))
      = [''DATA'' @ CRLF, message_text carol_opts]
   \<and> sock (snd (sk_from_message carol_opts
        (connected [Chunk ''354 go ahead'', Chunk ''550 rejected'']))) = Destroyed
   \<and> fst (p1_from_message carol_opts (connected [Chunk ''354 go ahead'', Chunk ''550 rejected'']))
     = Failed Message
   \<and> sent (snd (p1_from_message carol_opts
        (connected [Chunk ''354 go ahead'', Chunk ''550 rejected''])))
      = [''DATA'' @ CRLF, message_text carol_opts]
   \<and> sent (client_of (p1_message carol_opts (connected [Chunk ''500 what'', Chunk ''250 ok''])))
      = [''DATA'' @ CRLF]"
  using data_body_after_354 [of "connected [Chunk ''354 go ahead'', Chunk ''550 rejected'']"
      "''354 go ahead''" "[Chunk ''550 rejected'']" carol_opts]
    data_body_after_354 [of "connected [Chunk ''500 what'', Chunk ''250 ok'']"
      "''500 what''" "[Chunk ''250 ok'']" carol_opts]
  by (simp add: can_write_def scripted)

section \<open>Authentication\<close>

lemma p1_authentication_skip:
  "\<not> truthy (password opts) \<Longrightarrow> p1_authentication opts c = Next c"
  by (simp add: p1_authentication_def)

lemma p1_authentication_exit:
  "\<not> is_next (p1_authentication opts c) \<Longrightarrow>
     p1_from_authentication opts c
       = (Failed Authentication, client_of (p1_authentication opts c))
     \<and> sock (client_of (p1_authentication opts c)) = Destroyed"
  by (auto simp: p1_from_authentication_def p1_authentication_def fatal_def client_destroy_def
      split: res.splits if_splits)

lemma p1_authentication_next:
  "is_next (p1_authentication opts c) \<Longrightarrow>
     p1_from_authentication opts c
       = p1_from_initiation opts (client_of (p1_authentication opts c))"
  by (cases "p1_authentication opts c") (auto simp: p1_from_authentication_def)

lemma p1_greeting_next:
  "is_next (p1_greeting opts c) \<Longrightarrow>
     p1_from_greeting opts c = p1_from_authentication opts (client_of (p1_greeting opts c))"
  by (cases "p1_greeting opts c") (auto simp: p1_from_greeting_def)

lemma p1_auth_first:
  "truthy (password opts) \<Longrightarrow> can_write 1 c \<Longrightarrow>
     \<exists>ws. sent (client_of (p1_authentication opts c)) = sent c @ (''AUTH LOGIN'' @ CRLF) # ws"
  by (auto simp: p1_authentication_def p1_authentication_try_def io
      split: option.splits nat.splits list.splits read_result.splits)

lemma p1_auth_login_rejected:
  assumes "truthy (password opts)" "inbox c = Chunk a1 # t1" "can_write 1 c"
    "getStatus a1 \<noteq> ''334''"
  shows "sent (client_of (p1_authentication opts c)) = sent c @ [''AUTH LOGIN'' @ CRLF]
         \<and> \<not> is_next (p1_authentication opts c)"
  using assms
  by (auto simp: p1_authentication_def p1_authentication_try_def io
      split: option.splits nat.splits if_splits)

lemma p1_auth_user_rejected:
  assumes "truthy (password opts)" "inbox c = Chunk a1 # Chunk a2 # t2" "can_write 2 c"
    "getStatus a1 = ''334''" "getStatus a2 \<noteq> ''334''"
  shows "sent (client_of (p1_authentication opts c))
           = sent c @ [''AUTH LOGIN'' @ CRLF, btoa (user opts) @ CRLF]
         \<and> \<not> is_next (p1_authentication opts c)"
  using assms
  by (auto simp: p1_authentication_def p1_authentication_try_def io
      split: option.splits nat.splits if_splits)

lemma p1_auth_password:
  assumes "password opts = Some pw" "pw \<noteq> []"
    "inbox c = Chunk a1 # Chunk a2 # Chunk a3 # t3" "can_write 3 c"
    "getStatus a1 = ''334''" "getStatus a2 = ''334''"
  shows "sent (client_of (p1_authentication opts c))
           = sent c @ [''AUTH LOGIN'' @ CRLF, btoa (user opts) @ CRLF, btoa pw @ CRLF]
         \<and> (is_next (p1_authentication opts c) \<longleftrightarrow> getStatus a3 = ''235'')"
  using assms
  by (auto simp: p1_authentication_def p1_authentication_try_def io truthy_def interp_def
      split: option.splits nat.splits if_splits)

lemma parse_argv_password:
  "parse_argv a = Some opts \<Longrightarrow>
     password opts = (if truthy (argv_p a) then argv_p a else None)
     \<and> (truthy (password opts) \<longleftrightarrow> password opts \<noteq> None)"
  by (auto simp: parse_argv_def Let_def truthy_def split: if_splits option.splits)

text \<open>no AUTH LOGIN outside the authentication stage\<close>

lemma no_auth_connect:
  "''AUTH LOGIN'' @ CRLF \<notin> set (sent c) \<Longrightarrow>
     ''AUTH LOGIN'' @ CRLF \<notin> set (sent (client_of (p1_connect opts c)))"
  by (auto simp: p1_connect_def client_connect_def split: option.splits)

lemma no_auth_banner:
  "''AUTH LOGIN'' @ CRLF \<notin> set (sent c) \<Longrightarrow>
     ''AUTH LOGIN'' @ CRLF \<notin> set (sent (client_of (p1_banner opts c)))"
  by (auto simp: p1_banner_def p1_banner_try_def io
      split: option.splits nat.splits list.splits read_result.splits)

lemma no_auth_greeting:
  "''AUTH LOGIN'' @ CRLF \<notin> set (sent c) \<Longrightarrow>
     ''AUTH LOGIN'' @ CRLF \<notin> set (sent (client_of (p1_greeting opts c)))"
  by (auto simp: p1_greeting_def p1_greeting_try_def io
      split: option.splits nat.splits list.splits read_result.splits)

lemma no_auth_initiation:
  "''AUTH LOGIN'' @ CRLF \<notin> set (sent c) \<Longrightarrow>
     ''AUTH LOGIN'' @ CRLF \<notin> set (sent (client_of (p1_initiation opts c)))"
  by (auto simp: p1_initiation_def p1_initiation_try_def io
      split: option.splits nat.splits list.splits read_result.splits)

lemma no_auth_message:
  "''AUTH LOGIN'' @ CRLF \<notin> set (sent c) \<Longrightarrow>
     ''AUTH LOGIN'' @ CRLF \<notin> set (sent (client_of (p1_message opts c)))"
  by (auto simp: p1_message_def p1_message_try_def io message_text_def
      split: option.splits nat.splits list.splits read_result.splits)

lemma no_auth_quit:
  "''AUTH LOGIN'' @ CRLF \<notin> set (sent c) \<Longrightarrow>
     ''AUTH LOGIN'' @ CRLF \<notin> set (sent (snd (p1_quit opts c)))"
  by (auto simp: p1_quit_def io split: option.splits nat.splits)

lemma snd_continue:
  "snd (continue st f) = (if is_next st then snd (f (client_of st)) else client_of st)"
  by (cases st) auto

lemma no_auth_session:
  assumes "\<not> truthy (password opts)" and "''AUTH LOGIN'' @ CRLF \<notin> set (sent c)"
  shows "''AUTH LOGIN'' @ CRLF \<notin> set (sent (snd (p1_session opts c)))"
proof -
  let ?A = "''AUTH LOGIN'' @ CRLF"
  have m: "?A \<notin> set (sent (snd (p1_from_message opts x)))" if "?A \<notin> set (sent x)" for x
    unfolding p1_from_message_def snd_continue
    using no_auth_message [OF that, of opts] no_auth_quit by simp
  have i: "?A \<notin> set (sent (snd (p1_from_initiation opts x)))" if "?A \<notin> set (sent x)" for x
    unfolding p1_from_initiation_def snd_continue
    using no_auth_initiation [OF that, of opts] m by simp
  have a: "?A \<notin> set (sent (snd (p1_from_authentication opts x)))" if "?A \<notin> set (sent x)" for x
    unfolding p1_from_authentication_def p1_authentication_skip [OF assms(1)]
    using i [OF that] by simp
  have g: "?A \<notin> set (sent (snd (p1_from_greeting opts x)))" if "?A \<notin> set (sent x)" for x
    unfolding p1_from_greeting_def snd_continue
    using no_auth_greeting [OF that, of opts] a by simp
  have b: "?A \<notin> set (sent (snd (p1_from_banner opts x)))" if "?A \<notin> set (sent x)" for x
    unfolding p1_from_banner_def snd_continue
    using no_auth_banner [OF that, of opts] g by simp
  show ?thesis
    unfolding p1_session_def snd_continue
    using no_auth_connect [OF assms(2), of opts] b by simp
qed

text \<open>
  The authentication try block of the later script, for a user and a password of
  characters up to U+00FF (the strings here, on which \<^verbatim>\<open>btoa\<close> does not throw). It runs
  exactly when a password is set in the options, which the command line sets exactly when
  \<^verbatim>\<open>-p\<close> is a non-empty string. Without a password the stage changes nothing, the run
  goes from a successful greeting straight on to MAIL FROM, and no write of the whole run
  is AUTH LOGIN. With a password the stage writes AUTH LOGIN first and requires status 334
  of the reply; then it writes the base64 of the user on a line of its own and requires
  334; then the base64 of the password on a line of its own and requires 235. Any other
  status ends the run as failed at the authentication, the socket destroyed, with nothing
  more written.
\<close>

lemma authentication_only_with_password:
  "(\<not> truthy (password opts) \<longrightarrow>
      p1_authentication opts c = Next c
      \<and> p1_from_authentication opts c = p1_from_initiation opts c
      \<and> (is_next (p1_greeting opts c) \<longrightarrow>
           p1_from_greeting opts c = p1_from_initiation opts (client_of (p1_greeting opts c)))
      \<and> (''AUTH LOGIN'' @ CRLF \<notin> set (sent c) \<longrightarrow>
           ''AUTH LOGIN'' @ CRLF \<notin> set (sent (snd (p1_session opts c)))))
   \<and> (parse_argv a = Some opts \<longrightarrow>
        password opts = (if truthy (argv_p a) then argv_p a else None)
        \<and> (truthy (password opts) \<longleftrightarrow> password opts \<noteq> None))
   \<and> (truthy (password opts) \<longrightarrow> can_write 1 c \<longrightarrow>
        (\<exists>ws. sent (client_of (p1_authentication opts c))
           = sent c @ (''AUTH LOGIN'' @ CRLF) # ws))
   \<and> (password opts = Some pw \<and> pw \<noteq> [] \<and> can_write 3 c \<and> inbox c = Chunk a1 # t1 \<longrightarrow>
        (getStatus a1 \<noteq> ''334'' \<longrightarrow>
           sent (client_of (p1_authentication opts c)) = sent c @ [''AUTH LOGIN'' @ CRLF]
           \<and> \<not> is_next (p1_authentication opts c))
        \<and> (getStatus a1 = ''334'' \<longrightarrow>
             (\<forall>a2 t2. t1 = Chunk a2 # t2 \<longrightarrow>
                (getStatus a2 \<noteq> ''334'' \<longrightarrow>
                   sent (client_of (p1_authentication opts c))
                     = sent c @ [''AUTH LOGIN'' @ CRLF, btoa (user opts) @ CRLF]
                   \<and> \<not> is_next (p1_authentication opts c))
                \<and> (getStatus a2 = ''334'' \<longrightarrow>
                     (\<forall>a3 t3. t2 = Chunk a3 # t3 \<longrightarrow>
                        sent (client_of (p1_authentication opts c))
                          = sent c @ [''AUTH LOGIN'' @ CRLF, btoa (user opts) @ CRLF,
                                      btoa pw @ CRLF]
                        \<and> (is_next (p1_authentication opts c)
                             \<longleftrightarrow> getStatus a3 = ''235''))))))
   \<and> (\<not> is_next (p1_authentication opts c) \<longrightarrow>
        p1_from_authentication opts c
          = (Failed Authentication, client_of (p1_authentication opts c))
        \<and> sock (client_of (p1_authentication opts c)) = Destroyed)
   \<and> (is_next (p1_authentication opts c) \<longrightarrow>
        p1_from_authentication opts c
          = p1_from_initiation opts (client_of (p1_authentication opts c)))"
   (is "?Skip \<and> ?Parse \<and> ?First \<and> ?Chain \<and> ?Exit \<and> ?Next")
proof -
  have skip: ?Skip
  proof (intro impI conjI)
    assume np: "\<not> truthy (password opts)"
    show "p1_authentication opts c = Next c" by (rule p1_authentication_skip [OF np])
    then show "p1_from_authentication opts c = p1_from_initiation opts c"
      by (simp add: p1_from_authentication_def)
    then show "p1_from_greeting opts c = p1_from_initiation opts (client_of (p1_greeting opts c))"
      if "is_next (p1_greeting opts c)"
      using p1_greeting_next [OF that] p1_authentication_skip [OF np]
      by (simp add: p1_from_authentication_def)
    show "''AUTH LOGIN'' @ CRLF \<notin> set (sent (snd (p1_session opts c)))"
      if "''AUTH LOGIN'' @ CRLF \<notin> set (sent c)"
      by (rule no_auth_session [OF np that])
  qed
  have parse: ?Parse using parse_argv_password [of a opts] by blast
  have first: ?First using p1_auth_first [of opts c] by blast
  have chain: ?Chain
  proof (intro impI, elim conjE)
    assume pw: "password opts = Some pw" "pw \<noteq> []" and w: "can_write 3 c"
      and i: "inbox c = Chunk a1 # t1"
    from pw have t: "truthy (password opts)" by (simp add: truthy_def)
    from w have w1: "can_write 1 c" and w2: "can_write 2 c"
      by (auto simp: can_write_def split: option.splits)
    have r1: "sent (client_of (p1_authentication opts c)) = sent c @ [''AUTH LOGIN'' @ CRLF]
           \<and> \<not> is_next (p1_authentication opts c)" if "getStatus a1 \<noteq> ''334''"
      by (rule p1_auth_login_rejected [OF t i w1 that])
    have r2: "sent (client_of (p1_authentication opts c))
                     = sent c @ [''AUTH LOGIN'' @ CRLF, btoa (user opts) @ CRLF]
                   \<and> \<not> is_next (p1_authentication opts c)"
      if "getStatus a1 = ''334''" "t1 = Chunk a2 # t2" "getStatus a2 \<noteq> ''334''" for a2 t2
      using p1_auth_user_rejected [OF t _ w2 that(1) that(3), of t2] i that(2) by simp
    have r3: "sent (client_of (p1_authentication opts c))
                          = sent c @ [''AUTH LOGIN'' @ CRLF, btoa (user opts) @ CRLF,
                                      btoa pw @ CRLF]
                        \<and> (is_next (p1_authentication opts c)
                             \<longleftrightarrow> getStatus a3 = ''235'')"
      if "getStatus a1 = ''334''" "t1 = Chunk a2 # t2" "getStatus a2 = ''334''"
        "t2 = Chunk a3 # t3" for a2 t2 a3 t3
      using p1_auth_password [OF pw _ w that(1) that(3), of a3 t3] i that(2) that(4) by simp
    from r1 r2 r3
    show "(getStatus a1 \<noteq> ''334'' \<longrightarrow>
           sent (client_of (p1_authentication opts c)) = sent c @ [''AUTH LOGIN'' @ CRLF]
           \<and> \<not> is_next (p1_authentication opts c))
        \<and> (getStatus a1 = ''334'' \<longrightarrow>
             (\<forall>a2 t2. t1 = Chunk a2 # t2 \<longrightarrow>
                (getStatus a2 \<noteq> ''334'' \<longrightarrow>
                   sent (client_of (p1_authentication opts c))
                     = sent c @ [''AUTH LOGIN'' @ CRLF, btoa (user opts) @ CRLF]
                   \<and> \<not> is_next (p1_authentication opts c))
                \<and> (getStatus a2 = ''334'' \<longrightarrow>
                     (\<forall>a3 t3. t2 = Chunk a3 # t3 \<longrightarrow>
                        sent (client_of (p1_authentication opts c))
                          = sent c @ [''AUTH LOGIN'' @ CRLF, btoa (user opts) @ CRLF,
                                      btoa pw @ CRLF]
                        \<and> (is_next (p1_authentication opts c)
                             \<longleftrightarrow> getStatus a3 = ''235'')))))"
      by blast
  qed
  have exit: ?Exit using p1_authentication_exit [of opts c] by blast
  have nxt: ?Next using p1_authentication_next [of opts c] by blast
  from skip parse first chain exit nxt show ?thesis by (intro conjI)
qed

lemma btoa_examples:
  "btoa ''carol@example.com'' = ''Y2Fyb2xAZXhhbXBsZS5jb20=''" "btoa ''hunter2'' = ''aHVudGVyMg==''"
  by (simp_all add: btoa_def b64_digit_def b64_alphabet_def)

lemma authentication_only_with_password_witness:
  "sent (client_of (p1_authentication (carol_opts\<lparr>password := Some ''hunter2''\<rparr>)
      (connected [Chunk ''334 VXNlcm5hbWU6'', Chunk ''334 UGFzc3dvcmQ6'', Chunk ''235 ok''])))
     = [''AUTH LOGIN'' @ CRLF, ''Y2Fyb2xAZXhhbXBsZS5jb20='' @ CRLF, ''aHVudGVyMg=='' @ CRLF]
   \<and> is_next (p1_authentication (carol_opts\<lparr>password := Some ''hunter2''\<rparr>)
      (connected [Chunk ''334 VXNlcm5hbWU6'', Chunk ''334 UGFzc3dvcmQ6'', Chunk ''235 ok'']))
   \<and> p1_authentication carol_opts (connected [Chunk ''250 ok'']) = Next (connected [Chunk ''250 ok''])
   \<and> ''AUTH LOGIN'' @ CRLF \<notin> set (sent (snd (p1_session carol_opts
        (fresh [Chunk ''220 hi'', Chunk ''250 ok'', Chunk ''250 ok'', Chunk ''250 ok'',
                Chunk ''354 go'', Chunk ''250 ok'']))))"
  using authentication_only_with_password [of "carol_opts\<lparr>password := Some ''hunter2''\<rparr>"
      "connected [Chunk ''334 VXNlcm5hbWU6'', Chunk ''334 UGFzc3dvcmQ6'', Chunk ''235 ok'']"
      carol_argv "''hunter2''" "''334 VXNlcm5hbWU6''"
      "[Chunk ''334 UGFzc3dvcmQ6'', Chunk ''235 ok'']"]
    authentication_only_with_password [of carol_opts "connected [Chunk ''250 ok'']"
      carol_argv "''x''" "''250 ok''" "[]"]
    authentication_only_with_password [of carol_opts
      "fresh [Chunk ''220 hi'', Chunk ''250 ok'', Chunk ''250 ok'', Chunk ''250 ok'',
                Chunk ''354 go'', Chunk ''250 ok'']"
      carol_argv "''x''" "''250 ok''" "[]"]
  by (simp add: can_write_def scripted truthy_def btoa_examples)

lemma sk_session_ignores_password:
  "sk_session (opts\<lparr>password := pw\<rparr>) c = sk_session opts c"
proof -
  let ?o = "opts\<lparr>password := pw\<rparr>"
  have t: "message_text ?o = message_text opts" by (simp add: message_text_def)
  have m: "sk_from_message ?o = sk_from_message opts"
    by (simp add: fun_eq_iff sk_from_message_def sk_message_def sk_message_try_def t
        cong: if_cong)
  have i: "sk_from_initiation ?o = sk_from_initiation opts"
    by (simp add: fun_eq_iff sk_from_initiation_def sk_initiation_def sk_initiation_try_def m
        cong: if_cong)
  have g: "sk_from_greeting ?o = sk_from_greeting opts"
    by (simp add: fun_eq_iff sk_from_greeting_def sk_greeting_def sk_greeting_try_def i
        cong: if_cong)
  have b: "sk_from_banner ?o = sk_from_banner opts"
    by (simp add: fun_eq_iff sk_from_banner_def g)
  show ?thesis by (simp add: sk_session_def sk_connect_def b split: res.splits)
qed

text \<open>
  C2 is what the later script does for a user and a password of characters up to U+00FF
  (above); the code misses it in two places. shokuhou.js keeps the password of the
  command line and has only a comment where the authentication belongs: with
  \<^verbatim>\<open>-p hunter2\<close> against a server that accepts every step, the run completes and its
  writes are EHLO, MAIL FROM, RCPT TO, DATA, the message and QUIT, without AUTH LOGIN. And
  in the later script \<^verbatim>\<open>btoa\<close> throws on a user with a character above U+00FF: for
  the user of code units U+7528, U+6237 and "@example.com" with the password x, after the
  reply 334 to AUTH LOGIN the stage fails with "Invalid character", the socket destroyed
  and AUTH LOGIN its only write, where the claim has the base64 of the user sent.
\<close>

theorem authentication_missed_cases:
  "parse_argv (carol_argv\<lparr>argv_p := Some ''hunter2''\<rparr>)
     = Some (carol_opts\<lparr>password := Some ''hunter2''\<rparr>)
   \<and> fst (sk_session (carol_opts\<lparr>password := Some ''hunter2''\<rparr>) (fresh accepting)) = Completed
   \<and> sent (snd (sk_session (carol_opts\<lparr>password := Some ''hunter2''\<rparr>) (fresh accepting)))
      = [''EHLO example.com'' @ CRLF, ''MAIL FROM: <carol@example.com>'' @ CRLF,
         ''RCPT TO: <bob@example.test>'' @ CRLF, ''DATA'' @ CRLF, message_text carol_opts,
         ''QUIT'' @ CRLF]
   \<and> btoa_units wide_user = Inl invalid_character
   \<and> \<not> is_next (units_authentication wide_user (Some (map of_char ''x''))
          (carol_opts\<lparr>password := Some ''x''\<rparr>) (connected [Chunk ''334 VXNlcm5hbWU6'']))
   \<and> sent (client_of (units_authentication wide_user (Some (map of_char ''x''))
          (carol_opts\<lparr>password := Some ''x''\<rparr>) (connected [Chunk ''334 VXNlcm5hbWU6''])))
      = [''AUTH LOGIN'' @ CRLF]
   \<and> last (console (client_of (units_authentication wide_user (Some (map of_char ''x''))
          (carol_opts\<lparr>password := Some ''x''\<rparr>) (connected [Chunk ''334 VXNlcm5hbWU6'']))))
      = Err ''[X] An error occurred during authentication: Invalid character''
   \<and> sock (client_of (units_authentication wide_user (Some (map of_char ''x''))
          (carol_opts\<lparr>password := Some ''x''\<rparr>) (connected [Chunk ''334 VXNlcm5hbWU6''])))
      = Destroyed"
  by (simp add: parse_argv_def carol_argv_def alice_argv_def carol_opts_def truthy_def
      interp_def split_def index_def sk_session_def sk_from_banner_def sk_from_greeting_def
      sk_from_initiation_def sk_from_message_def sk_connect_def sk_banner_def sk_banner_try_def
      sk_greeting_def sk_greeting_try_def sk_initiation_def sk_initiation_try_def
      sk_message_def sk_message_try_def sk_quit_def client_connect_def io fresh_def
      accepting_def CRLF_def message_text_def btoa_units_def wide_user_def
      units_authentication_def units_authentication_try_def js_btoa_def connected_def
      invalid_character_def exn_message_def console_log_def console_error_def)

section \<open>The domain of the greeting\<close>

lemma split_on_none: "sep \<notin> set s \<Longrightarrow> split_on sep s = [s]"
  by (induction s) auto

lemma split_on_single:
  "count_list s sep = 1 \<Longrightarrow>
     split_on sep s = [takeWhile (\<lambda>ch. ch \<noteq> sep) s,
                       drop (Suc (length (takeWhile (\<lambda>ch. ch \<noteq> sep) s))) s]"
proof (induction s)
  case Nil
  then show ?case by simp
next
  case (Cons x xs)
  show ?case
  proof (cases "x = sep")
    case True
    with Cons.prems have "count_list xs sep = 0" by simp
    then have "sep \<notin> set xs" by (simp add: count_list_0_iff)
    with True show ?thesis by (simp add: split_on_none)
  next
    case False
    with Cons.prems have "count_list xs sep = 1" by simp
    with Cons.IH False show ?thesis by simp
  qed
qed

lemma parse_argv_sender:
  "parse_argv a = Some opts \<Longrightarrow>
     domain opts = index (split (sender opts) (CHR ''@'') 2) 1
     \<and> user opts = interp (argv_u a)
     \<and> sender opts = (if truthy (argv_s a) then interp (argv_s a) else interp (argv_u a))"
  by (auto simp: parse_argv_def Let_def split: if_splits)

lemma parse_argv_rejects:
  "parse_argv a = None \<longleftrightarrow>
     argv_help a \<or> \<not> truthy (argv_u a) \<or> \<not> truthy (argv_r a) \<or> \<not> truthy (argv_h a)"
  by (auto simp: parse_argv_def Let_def split: if_splits)

lemma domain_single_at:
  "parse_argv a = Some opts \<Longrightarrow> count_list (sender opts) (CHR ''@'') = 1 \<Longrightarrow>
     domain opts = Some (after_first_at (sender opts))"
  by (simp add: parse_argv_sender split_def split_on_single index_def after_first_at_def)

lemma domain_no_at:
  "parse_argv a = Some opts \<Longrightarrow> CHR ''@'' \<notin> set (sender opts) \<Longrightarrow> domain opts = None"
  by (simp add: parse_argv_sender split_def split_on_none index_def)

lemma sk_greeting_first:
  "can_write 1 c \<Longrightarrow>
     \<exists>ws. sent (client_of (sk_greeting opts c))
        = sent c @ (''EHLO '' @ interp (domain opts) @ CRLF) # ws"
  by (auto simp: sk_greeting_def sk_greeting_try_def io
      split: option.splits nat.splits list.splits read_result.splits)

lemma p1_greeting_first:
  "can_write 1 c \<Longrightarrow>
     \<exists>ws. sent (client_of (p1_greeting opts c))
        = sent c @ (''EHLO '' @ interp (domain opts) @ CRLF) # ws"
  by (auto simp: p1_greeting_def p1_greeting_try_def io
      split: option.splits nat.splits list.splits read_result.splits)

lemma sk_greeting_helo:
  "inbox c = Chunk r1 # tail \<Longrightarrow> can_write 2 c \<Longrightarrow> substring r1 0 3 = ''502'' \<Longrightarrow>
     sent (client_of (sk_greeting opts c))
       = sent c @ [''EHLO '' @ interp (domain opts) @ CRLF,
                   ''HELO '' @ interp (domain opts) @ CRLF]"
  by (auto simp: sk_greeting_def sk_greeting_try_def io
      split: option.splits nat.splits list.splits read_result.splits)

lemma p1_greeting_helo:
  "inbox c = Chunk r1 # tail \<Longrightarrow> can_write 2 c \<Longrightarrow> getStatus r1 = ''502'' \<Longrightarrow>
     sent (client_of (p1_greeting opts c))
       = sent c @ [''EHLO '' @ interp (domain opts) @ CRLF,
                   ''HELO '' @ interp (domain opts) @ CRLF]"
  by (auto simp: p1_greeting_def p1_greeting_try_def io
      split: option.splits nat.splits list.splits read_result.splits)

lemma parse_alice: "parse_argv alice_argv = Some alice_opts"
  by (simp add: parse_argv_def alice_argv_def alice_opts_def truthy_def interp_def split_def
      index_def)

text \<open>
  C6. For options built from the command line whose sender holds exactly one @, the
  domain is the substring of the sender after that @, and it is the domain both scripts
  write in EHLO, and in HELO on the fallback.
\<close>

theorem domain_after_first_at:
  assumes "parse_argv a = Some opts" and "count_list (sender opts) (CHR ''@'') = 1"
  shows
   "domain opts = Some (after_first_at (sender opts))
    \<and> sender opts = (if truthy (argv_s a) then interp (argv_s a) else interp (argv_u a))
    \<and> (\<forall>c. can_write 1 c \<longrightarrow>
          (\<exists>ws. sent (client_of (sk_greeting opts c))
             = sent c @ (''EHLO '' @ after_first_at (sender opts) @ CRLF) # ws))
    \<and> (\<forall>c r1 tail. inbox c = Chunk r1 # tail \<and> can_write 2 c \<and> substring r1 0 3 = ''502'' \<longrightarrow>
          sent (client_of (sk_greeting opts c))
            = sent c @ [''EHLO '' @ after_first_at (sender opts) @ CRLF,
                        ''HELO '' @ after_first_at (sender opts) @ CRLF])
    \<and> (\<forall>c. can_write 1 c \<longrightarrow>
          (\<exists>ws. sent (client_of (p1_greeting opts c))
             = sent c @ (''EHLO '' @ after_first_at (sender opts) @ CRLF) # ws))
    \<and> (\<forall>c r1 tail. inbox c = Chunk r1 # tail \<and> can_write 2 c \<and> getStatus r1 = ''502'' \<longrightarrow>
          sent (client_of (p1_greeting opts c))
            = sent c @ [''EHLO '' @ after_first_at (sender opts) @ CRLF,
                        ''HELO '' @ after_first_at (sender opts) @ CRLF])"
proof -
  have d: "domain opts = Some (after_first_at (sender opts))"
    by (rule domain_single_at [OF assms])
  then have i: "interp (domain opts) = after_first_at (sender opts)"
    by (simp add: interp_def)
  show ?thesis
    using d parse_argv_sender [OF assms(1)] sk_greeting_first [of _ opts]
      p1_greeting_first [of _ opts] sk_greeting_helo [of _ _ _ opts]
      p1_greeting_helo [of _ _ _ opts]
    unfolding i by blast
qed

theorem domain_after_first_at_witness:
  "domain carol_opts = Some ''example.com''
   \<and> sent (client_of (sk_greeting carol_opts (connected [Chunk ''502 no'', Chunk ''250 ok''])))
      = [''EHLO example.com'' @ CRLF, ''HELO example.com'' @ CRLF]
   \<and> sent (client_of (p1_greeting carol_opts (connected [Chunk ''502 no'', Chunk ''250 ok''])))
      = [''EHLO example.com'' @ CRLF, ''HELO example.com'' @ CRLF]"
proof -
  let ?c = "connected [Chunk ''502 no'', Chunk ''250 ok'']"
  have cnt: "count_list (sender carol_opts) (CHR ''@'') = 1"
    by (simp add: carol_opts_def)
  have a: "after_first_at (sender carol_opts) = ''example.com''"
    by (simp add: after_first_at_def carol_opts_def)
  have c: "inbox ?c = Chunk ''502 no'' # [Chunk ''250 ok''] \<and> can_write 2 ?c
      \<and> substring ''502 no'' 0 3 = ''502''"
    "inbox ?c = Chunk ''502 no'' # [Chunk ''250 ok''] \<and> can_write 2 ?c
      \<and> getStatus ''502 no'' = ''502''"
    by (simp_all add: can_write_def scripted)
  have s: "sent ?c = []" by (simp add: scripted)
  note T = domain_after_first_at [OF parse_carol cnt, unfolded a]
  note sk = T [THEN conjunct2, THEN conjunct2, THEN conjunct2, THEN conjunct1, rule_format,
      OF c(1), unfolded s]
  note p1 = T [THEN conjunct2, THEN conjunct2, THEN conjunct2, THEN conjunct2, THEN conjunct2,
      rule_format, OF c(2), unfolded s]
  from T [THEN conjunct1] sk p1 show ?thesis by simp
qed

text \<open>
  C7, as the claim states it, fails: the command line of the spec's own end-to-end example
  has the sender alice, without an @. It is accepted, and against a server that accepts
  every step the run completes, having greeted with EHLO undefined.
\<close>

theorem no_at_rejected_counterexample:
  "parse_argv alice_argv = Some alice_opts
   \<and> CHR ''@'' \<notin> set (sender alice_opts)
   \<and> fst (sk_session alice_opts (fresh accepting)) = Completed
   \<and> sent (snd (sk_session alice_opts (fresh accepting)))
      = [''EHLO undefined'' @ CRLF, ''MAIL FROM: <alice>'' @ CRLF,
         ''RCPT TO: <bob@example.test>'' @ CRLF, ''DATA'' @ CRLF, message_text alice_opts,
         ''QUIT'' @ CRLF]"
  by (simp add: parse_argv_def alice_argv_def alice_opts_def truthy_def interp_def split_def
      index_def sk_session_def sk_from_banner_def sk_from_greeting_def sk_from_initiation_def
      sk_from_message_def sk_connect_def sk_banner_def sk_banner_try_def sk_greeting_def
      sk_greeting_try_def sk_initiation_def sk_initiation_try_def sk_message_def
      sk_message_try_def sk_quit_def client_connect_def io fresh_def accepting_def CRLF_def
      message_text_def)

text \<open>
  C7, amended. A sender without an @ is not rejected: the command line is refused only for
  the help flag or a missing user, recipient or host. For options built from a command
  line whose sender holds no @ the domain is undefined, and the first write of the
  greeting stage of both scripts is the line EHLO undefined.
\<close>

theorem no_at_greeting_undefined:
  assumes "parse_argv a = Some opts" and "CHR ''@'' \<notin> set (sender opts)"
  shows
   "domain opts = None
    \<and> (\<forall>c. can_write 1 c \<longrightarrow>
          (\<exists>ws. sent (client_of (sk_greeting opts c))
             = sent c @ (''EHLO undefined'' @ CRLF) # ws))
    \<and> (\<forall>c. can_write 1 c \<longrightarrow>
          (\<exists>ws. sent (client_of (p1_greeting opts c))
             = sent c @ (''EHLO undefined'' @ CRLF) # ws))
    \<and> (\<forall>a'. parse_argv a' = None \<longleftrightarrow>
          argv_help a' \<or> \<not> truthy (argv_u a') \<or> \<not> truthy (argv_r a') \<or> \<not> truthy (argv_h a'))"
proof -
  have d: "domain opts = None" by (rule domain_no_at [OF assms])
  then have i: "''EHLO '' @ interp (domain opts) @ CRLF = ''EHLO undefined'' @ CRLF"
    by (simp add: interp_def)
  show ?thesis
    using d sk_greeting_first [of _ opts] p1_greeting_first [of _ opts] parse_argv_rejects
    unfolding i by blast
qed

theorem no_at_greeting_undefined_witness:
  "domain alice_opts = None
   \<and> (\<exists>ws. sent (client_of (sk_greeting alice_opts (connected [Chunk ''250 ok''])))
         = (''EHLO undefined'' @ CRLF) # ws)
   \<and> (\<exists>ws. sent (client_of (p1_greeting alice_opts (connected [Chunk ''250 ok''])))
         = (''EHLO undefined'' @ CRLF) # ws)"
proof -
  let ?c = "connected [Chunk ''250 ok'']"
  have n: "CHR ''@'' \<notin> set (sender alice_opts)" by (simp add: alice_opts_def)
  have w: "can_write 1 ?c" by (simp add: can_write_def scripted)
  have s: "sent ?c = []" by (simp add: scripted)
  note T = no_at_greeting_undefined [OF parse_alice n]
  note sk = T [THEN conjunct2, THEN conjunct1, rule_format, OF w, unfolded s]
  note p1 = T [THEN conjunct2, THEN conjunct2, THEN conjunct1, rule_format, OF w, unfolded s]
  from T [THEN conjunct1] sk p1 show ?thesis by simp
qed

section \<open>Teardown\<close>





























section \<open>Verbose mode\<close>

lemma quiet_console [simp]:
  "quiet (console_log m c) = console_log m (quiet c)"
  "quiet (console_warn m c) = console_warn m (quiet c)"
  "quiet (console_error m c) = console_error m (quiet c)"
  "quiet (console_debug m c) = quiet c"
  by (simp_all add: quiet_def console_log_def console_warn_def console_error_def
      console_debug_def)

lemma quiet_debug [simp]: "quiet (debug opts m c) = quiet c"
  by (simp add: debug_def)

lemma debug_off [simp]: "debug (opts\<lparr>verbose := False\<rparr>) m c = c"
  by (simp add: debug_def)

lemma quiet_fields [simp]:
  "sent (quiet c) = sent c" "sock (quiet c) = sock c" "inbox (quiet c) = inbox c"
  "writable (quiet c) = writable c" "connect_result (quiet c) = connect_result c"
  "console (quiet c) = filter (\<lambda>e. \<not> is_debug e) (console c)"
  "write_failure (quiet c) = write_failure c" "stack_text (quiet c) = stack_text c"
  "promise_text (quiet c) = promise_text c"
  by (simp_all add: quiet_def)

lemma quiet_unhandledRejection [simp]:
  "quiet (unhandledRejection ex c) = unhandledRejection ex (quiet c)"
  by (simp add: unhandledRejection_def)

lemma quiet_updates [simp]:
  "quiet (c\<lparr>sock := k\<rparr>) = (quiet c)\<lparr>sock := k\<rparr>"
  "quiet (c\<lparr>sent := ws\<rparr>) = (quiet c)\<lparr>sent := ws\<rparr>"
  "quiet (c\<lparr>inbox := rs\<rparr>) = (quiet c)\<lparr>inbox := rs\<rparr>"
  "quiet (c\<lparr>writable := n\<rparr>) = (quiet c)\<lparr>writable := n\<rparr>"
  by (simp_all add: quiet_def)

lemma verbose_irrelevant [simp]:
  "message_text (opts\<lparr>verbose := v\<rparr>) = message_text opts"
  by (simp add: message_text_def)

lemma quiet_write [simp]: "res_quiet (client_write d c) = client_write d (quiet c)"
  by (simp add: client_write_def split: option.splits nat.splits)

lemma quiet_read [simp]: "res_quiet (client_read c) = client_read (quiet c)"
  by (simp add: client_read_def split: list.splits read_result.splits)

lemma quiet_destroy [simp]: "quiet (client_destroy c) = client_destroy (quiet c)"
  by (simp add: client_destroy_def)

lemma quiet_end [simp]: "quiet (client_end c) = client_end (quiet c)"
  by (simp add: client_end_def)

lemma quiet_fatal [simp]: "step_quiet (fatal st m c) = fatal st m (quiet c)"
  by (simp add: fatal_def)

lemma quiet_received [simp]:
  "res_quiet (received opts r c) = received (opts\<lparr>verbose := False\<rparr>) r (quiet c)"
  by (cases r) (simp_all add: received_def toString_def)

lemma quiet_bind:
  assumes "res_quiet m = m'" and "\<And>a c. res_quiet (f a c) = f' a (quiet c)"
  shows "res_quiet (res_bind m f) = res_bind m' f'"
  using assms by (cases m) auto

lemma quiet_if:
  assumes "b \<Longrightarrow> res_quiet x = x'" and "\<not> b \<Longrightarrow> res_quiet y = y'"
  shows "res_quiet (if b then x else y) = (if b then x' else y')"
  using assms by simp

lemma quiet_catch:
  assumes "res_quiet m = m'"
  shows "step_quiet (case m of Ok u c \<Rightarrow> Next c | Throw ex c \<Rightarrow> fatal st (p @ exn_message ex) c)
         = (case m' of Ok u c \<Rightarrow> Next c | Throw ex c \<Rightarrow> fatal st (p @ exn_message ex) c)"
  using assms by (cases m) auto

lemma quiet_continue:
  assumes "step_quiet st = st'" and "\<And>c. apsnd quiet (f c) = f' (quiet c)"
  shows "apsnd quiet (continue st f) = continue st' f'"
  using assms by (cases st) auto

lemma quiet_banner_try:
  "res_quiet (p1_banner_try opts c) = p1_banner_try (opts\<lparr>verbose := False\<rparr>) (quiet c)"
  unfolding p1_banner_try_def
  by (intro quiet_bind quiet_if; simp)

lemma quiet_greeting_try:
  "res_quiet (p1_greeting_try opts c) = p1_greeting_try (opts\<lparr>verbose := False\<rparr>) (quiet c)"
  unfolding p1_greeting_try_def
  by (intro quiet_bind quiet_if; simp)

lemma quiet_authentication_try:
  "res_quiet (p1_authentication_try opts c) = p1_authentication_try (opts\<lparr>verbose := False\<rparr>) (quiet c)"
  unfolding p1_authentication_try_def
  by (intro quiet_bind quiet_if; simp)

lemma quiet_initiation_try:
  "res_quiet (p1_initiation_try opts c) = p1_initiation_try (opts\<lparr>verbose := False\<rparr>) (quiet c)"
  unfolding p1_initiation_try_def
  by (intro quiet_bind quiet_if; simp)

lemma quiet_message_try:
  "res_quiet (p1_message_try opts c) = p1_message_try (opts\<lparr>verbose := False\<rparr>) (quiet c)"
  unfolding p1_message_try_def
  by (intro quiet_bind quiet_if; simp)

lemma quiet_banner:
  "step_quiet (p1_banner opts c) = p1_banner (opts\<lparr>verbose := False\<rparr>) (quiet c)"
  unfolding p1_banner_def by (rule quiet_catch) (rule quiet_banner_try)

lemma quiet_greeting:
  "step_quiet (p1_greeting opts c) = p1_greeting (opts\<lparr>verbose := False\<rparr>) (quiet c)"
  unfolding p1_greeting_def by (rule quiet_catch) (rule quiet_greeting_try)

lemma quiet_initiation:
  "step_quiet (p1_initiation opts c) = p1_initiation (opts\<lparr>verbose := False\<rparr>) (quiet c)"
  unfolding p1_initiation_def by (rule quiet_catch) (rule quiet_initiation_try)

lemma quiet_message:
  "step_quiet (p1_message opts c) = p1_message (opts\<lparr>verbose := False\<rparr>) (quiet c)"
  unfolding p1_message_def by (rule quiet_catch) (rule quiet_message_try)

lemma quiet_authentication:
  "step_quiet (p1_authentication opts c)
     = p1_authentication (opts\<lparr>verbose := False\<rparr>) (quiet c)"
proof (cases "truthy (password opts)")
  case True
  then show ?thesis
    unfolding p1_authentication_def
    using quiet_catch [OF quiet_authentication_try, of Authentication _ opts c] by simp
next
  case False
  then show ?thesis by (simp add: p1_authentication_def)
qed

lemma quiet_connect_stage:
  "step_quiet (p1_connect opts c) = p1_connect (opts\<lparr>verbose := False\<rparr>) (quiet c)"
  by (simp add: p1_connect_def client_connect_def split: option.splits)

lemma quiet_quit:
  "apsnd quiet (p1_quit opts c) = p1_quit (opts\<lparr>verbose := False\<rparr>) (quiet c)"
  by (simp add: p1_quit_def client_write_def client_end_def split: option.splits nat.splits)

lemma quiet_from_message:
  "apsnd quiet (p1_from_message opts c)
     = p1_from_message (opts\<lparr>verbose := False\<rparr>) (quiet c)"
  unfolding p1_from_message_def by (intro quiet_continue quiet_message quiet_quit)

lemma quiet_from_initiation:
  "apsnd quiet (p1_from_initiation opts c)
     = p1_from_initiation (opts\<lparr>verbose := False\<rparr>) (quiet c)"
  unfolding p1_from_initiation_def by (intro quiet_continue quiet_initiation quiet_from_message)

lemma quiet_from_authentication:
  "apsnd quiet (p1_from_authentication opts c)
     = p1_from_authentication (opts\<lparr>verbose := False\<rparr>) (quiet c)"
  unfolding p1_from_authentication_def
  by (intro quiet_continue quiet_authentication quiet_from_initiation)

lemma quiet_from_greeting:
  "apsnd quiet (p1_from_greeting opts c)
     = p1_from_greeting (opts\<lparr>verbose := False\<rparr>) (quiet c)"
  unfolding p1_from_greeting_def
  by (intro quiet_continue quiet_greeting quiet_from_authentication)

lemma quiet_from_banner:
  "apsnd quiet (p1_from_banner opts c)
     = p1_from_banner (opts\<lparr>verbose := False\<rparr>) (quiet c)"
  unfolding p1_from_banner_def by (intro quiet_continue quiet_banner quiet_from_greeting)

lemma quiet_session:
  "apsnd quiet (p1_session opts c) = p1_session (opts\<lparr>verbose := False\<rparr>) (quiet c)"
  unfolding p1_session_def by (intro quiet_continue quiet_connect_stage quiet_from_banner)

text \<open>
  C10. For any options and any scripted server (connect result, replies, failing write),
  the run of the script in verbose mode and the run without it end the same way, write the
  same lines to the socket in the same order, read the same replies and leave the socket
  in the same state; what they print differs only by the debug lines.
\<close>

theorem verbose_only_adds_debug_output:
  "fst (p1_session (opts\<lparr>verbose := True\<rparr>) c) = fst (p1_session (opts\<lparr>verbose := False\<rparr>) c)
   \<and> sent (snd (p1_session (opts\<lparr>verbose := True\<rparr>) c))
      = sent (snd (p1_session (opts\<lparr>verbose := False\<rparr>) c))
   \<and> sock (snd (p1_session (opts\<lparr>verbose := True\<rparr>) c))
      = sock (snd (p1_session (opts\<lparr>verbose := False\<rparr>) c))
   \<and> inbox (snd (p1_session (opts\<lparr>verbose := True\<rparr>) c))
      = inbox (snd (p1_session (opts\<lparr>verbose := False\<rparr>) c))
   \<and> filter (\<lambda>e. \<not> is_debug e) (console (snd (p1_session (opts\<lparr>verbose := True\<rparr>) c)))
      = filter (\<lambda>e. \<not> is_debug e) (console (snd (p1_session (opts\<lparr>verbose := False\<rparr>) c)))"
proof -
  let ?on = "p1_session (opts\<lparr>verbose := True\<rparr>) c"
  let ?off = "p1_session (opts\<lparr>verbose := False\<rparr>) c"
  have "apsnd quiet ?on = apsnd quiet ?off"
    using quiet_session [of "opts\<lparr>verbose := True\<rparr>" c]
      quiet_session [of "opts\<lparr>verbose := False\<rparr>" c]
    by simp
  then have e: "fst ?on = fst ?off" and q: "quiet (snd ?on) = quiet (snd ?off)"
    by (simp_all add: apsnd_def map_prod_def split_beta)
  from q have "sent (quiet (snd ?on)) = sent (quiet (snd ?off))"
    "sock (quiet (snd ?on)) = sock (quiet (snd ?off))"
    "inbox (quiet (snd ?on)) = inbox (quiet (snd ?off))"
    "console (quiet (snd ?on)) = console (quiet (snd ?off))"
    by simp_all
  with e show ?thesis by simp
qed

theorem verbose_only_adds_debug_output_witness:
  "sent (snd (p1_session (carol_opts\<lparr>verbose := True\<rparr>) (fresh accepting)))
     = sent (snd (p1_session carol_opts (fresh accepting)))
   \<and> fst (p1_session (carol_opts\<lparr>verbose := True\<rparr>) (fresh accepting))
     = fst (p1_session carol_opts (fresh accepting))"
proof -
  have "carol_opts\<lparr>verbose := False\<rparr> = carol_opts" by (simp add: carol_opts_def)
  with verbose_only_adds_debug_output [of carol_opts "fresh accepting"] show ?thesis by simp
qed

section \<open>What a stage reads of a reply\<close>






















end
